theory Spec2Isabelle
  imports Main "HOL-Library.AList" "HOL-Library.Sublist" "HOL-Library.Char_ord"
begin

section \<open>Values, errors and the server state\<close>

text \<open>
  The server is TypeScript on Node. Values that cross the protocol boundary are JSON
  values; \<open>JUndefined\<close> stands for JavaScript's \<open>undefined\<close> (an absent property).
  Numbers are the integers (timestamps and durations are whole milliseconds); strings are
  lists of 8-bit characters, read as the UTF-16 code units below 256, which covers the
  ASCII text of the knowledge base.
\<close>

datatype json =
    JUndefined
  | JNull
  | JBool bool
  | JNum int
  | JStr string
  | JArr "json list"
  | JObj "(string \<times> json) list"

text \<open>
  A thrown exception is a value: \<open>Error msg\<close> for \<open>new Error(msg)\<close>, and
  \<open>TypeError expr\<close> for the runtime's TypeError, tagged with the expression that raised it.
\<close>

datatype error = Error string | TypeError string

subsection \<open>utils/circuit-breaker.ts: the data\<close>

datatype breaker_state = CLOSED | OPEN | HALF_OPEN

record CircuitBreakerOptions =
  failureThreshold :: nat
  resetTimeout :: int
  monitoringPeriod :: int

record CircuitBreaker =
  failures :: nat
  lastFailureTime :: "int option"
  state :: breaker_state
  options :: CircuitBreakerOptions

text \<open>\<open>new CircuitBreaker(options)\<close>: the field initialisers of the class.\<close>

definition new_CircuitBreaker :: "CircuitBreakerOptions \<Rightarrow> CircuitBreaker" where
  "new_CircuitBreaker opts =
     \<lparr>failures = 0, lastFailureTime = None, state = CLOSED, options = opts\<rparr>"

subsection \<open>utils/cache.ts: the data\<close>

record 'v CacheItem =
  data :: 'v
  timestamp :: int
  ttl :: int

text \<open>
  The \<open>Map<string, CacheItem>\<close> of the class, as an association list in insertion
  order with one entry per key.
\<close>

type_synonym 'v Cache = "(string \<times> 'v CacheItem) list"

subsection \<open>The process state\<close>

text \<open>
  The two module-level singletons (\<open>circuitBreakers.external\<close> and \<open>cache\<close>) and the
  wall clock that \<open>Date.now()\<close> reads. An asynchronous operation is a function from the
  state to its outcome (\<open>Inl\<close> a rejection, \<open>Inr\<close> the resolved value) and the state it
  leaves behind; it may advance the clock. Calls to the logger are left out: nothing
  reads what it writes.
\<close>

record world =
  external :: CircuitBreaker
  cache :: "json Cache"
  clock :: int

type_synonym 'a operation = "world \<Rightarrow> (error + 'a) \<times> world"

section \<open>The circuit breaker\<close>

definition shouldAttemptReset :: "world \<Rightarrow> bool" where
  "shouldAttemptReset w =
     (case lastFailureTime (external w) of
        None \<Rightarrow> False
      | Some t \<Rightarrow> clock w - t \<ge> resetTimeout (options (external w)))"

definition onSuccess :: "world \<Rightarrow> world" where
  "onSuccess w = w\<lparr>external := (external w)\<lparr>failures := 0, state := CLOSED\<rparr>\<rparr>"

definition onFailure :: "world \<Rightarrow> world" where
  "onFailure w =
     (let b = (external w)\<lparr>failures := failures (external w) + 1,
                            lastFailureTime := Some (clock w)\<rparr>
      in if failures b \<ge> failureThreshold (options b)
         then w\<lparr>external := b\<lparr>state := OPEN\<rparr>\<rparr>
         else w\<lparr>external := b\<rparr>)"

text \<open>
  \<open>execute\<close>: first the gate (an OPEN breaker either becomes HALF_OPEN or throws), then
  the \<open>try\<close>/\<open>catch\<close> around the awaited operation.
\<close>

definition execute :: "'a operation \<Rightarrow> 'a operation" where
  "execute operation w =
     (case (if state (external w) = OPEN
            then (if shouldAttemptReset w
                  then Inr (w\<lparr>external := (external w)\<lparr>state := HALF_OPEN\<rparr>\<rparr>)
                  else Inl (Error ''Circuit breaker is OPEN''))
            else Inr w) of
        Inl err \<Rightarrow> (Inl err, w)
      | Inr w1 \<Rightarrow>
          (case operation w1 of
             (Inr result, w2) \<Rightarrow> (Inr result, onSuccess w2)
           | (Inl err, w2) \<Rightarrow> (Inl err, onFailure w2)))"

text \<open>The one instance the server creates: \<open>circuitBreakers.external\<close>.\<close>

definition circuitBreakers_external :: CircuitBreaker where
  "circuitBreakers_external =
     new_CircuitBreaker
       \<lparr>failureThreshold = 5, resetTimeout = 60000, monitoringPeriod = 10000\<rparr>"

section \<open>The expiring cache\<close>

definition defaultTTL :: int where
  "defaultTTL = 5 * 60 * 1000"

text \<open>
  \<open>Cache.get\<close> at time \<open>now\<close>: the value (\<open>None\<close> for \<open>null\<close>) and the map afterwards.
\<close>

definition Cache_get :: "string \<Rightarrow> int \<Rightarrow> 'v Cache \<Rightarrow> 'v option \<times> 'v Cache" where
  "Cache_get key now c =
     (case map_of c key of
        None \<Rightarrow> (None, c)
      | Some item \<Rightarrow>
          if now > timestamp item + ttl item
          then (None, AList.delete key c)
          else (Some (data item), c))"

text \<open>
  \<open>Cache.set\<close> at time \<open>now\<close>. The optional argument \<open>ttl\<close> is \<open>None\<close> when the caller
  leaves it out; \<open>ttl || this.defaultTTL\<close> also replaces a \<open>ttl\<close> of \<open>0\<close>.
\<close>

definition Cache_set :: "string \<Rightarrow> 'v \<Rightarrow> int option \<Rightarrow> int \<Rightarrow> 'v Cache \<Rightarrow> 'v Cache" where
  "Cache_set key d ttl_arg now c =
     (let item = \<lparr>data = d, timestamp = now,
                  ttl = (case ttl_arg of
                           None \<Rightarrow> defaultTTL
                         | Some t \<Rightarrow> if t = 0 then defaultTTL else t)\<rparr>
      in AList.update key item c)"

definition Cache_clear :: "'v Cache \<Rightarrow> 'v Cache" where
  "Cache_clear c = []"

definition Cache_delete :: "string \<Rightarrow> 'v Cache \<Rightarrow> bool \<times> 'v Cache" where
  "Cache_delete key c = (key \<in> fst ` set c, AList.delete key c)"

definition Cache_size :: "'v Cache \<Rightarrow> nat" where
  "Cache_size c = length c"

section \<open>JavaScript values and strings\<close>

text \<open>Truthiness, as \<open>if (x)\<close>, \<open>!x\<close> and \<open>x || y\<close> test it.\<close>

fun truthy :: "json \<Rightarrow> bool" where
  "truthy JUndefined = False"
| "truthy JNull = False"
| "truthy (JBool b) = b"
| "truthy (JNum n) = (n \<noteq> 0)"
| "truthy (JStr s) = (s \<noteq> [])"
| "truthy (JArr xs) = True"
| "truthy (JObj kvs) = True"

text \<open>\<open>params || {}\<close>.\<close>

definition or_empty_object :: "json \<Rightarrow> json" where
  "or_empty_object params = (if truthy params then params else JObj [])"

text \<open>
  Reading a property of a value that is neither \<open>null\<close> nor \<open>undefined\<close>, for the
  property names the handlers destructure (none of them is defined by a prototype).
\<close>

fun get_prop :: "json \<Rightarrow> string \<Rightarrow> json" where
  "get_prop (JObj kvs) key = (case map_of kvs key of Some v \<Rightarrow> v | None \<Rightarrow> JUndefined)"
| "get_prop v key = JUndefined"

text \<open>
  The lookup tables of the server are object literals indexed by a string from the request:
  \<open>table[key]\<close>. Such a read finds the table's own entries and, for a key that is not one
  of them, the members every object inherits from \<open>Object.prototype\<close>, which are all truthy.
\<close>

datatype 'a property = Own 'a | Inherited string | Absent

definition Object_prototype :: "string list" where
  "Object_prototype =
     [''constructor'', ''__defineGetter__'', ''__defineSetter__'', ''hasOwnProperty'',
      ''__lookupGetter__'', ''__lookupSetter__'', ''isPrototypeOf'', ''propertyIsEnumerable'',
      ''toString'', ''valueOf'', ''__proto__'', ''toLocaleString'']"

definition lookup_property :: "(string \<times> 'a) list \<Rightarrow> string \<Rightarrow> 'a property" where
  "lookup_property table key =
     (case map_of table key of
        Some v \<Rightarrow> Own v
      | None \<Rightarrow> if key \<in> set Object_prototype then Inherited key else Absent)"

text \<open>
  \<open>String.prototype.toLowerCase\<close>. A character of the model is a UTF-16 code unit below 256.
  Among these the Unicode lower-case mapping moves the letters A to Z (65 to 90) and the
  Latin-1 capitals U+00C0 to U+00DE, the multiplication sign U+00D7 apart, up by 32, and
  leaves every other code unit as it is.
\<close>

definition upper_case :: "char \<Rightarrow> bool" where
  "upper_case c \<longleftrightarrow>
     (let n = of_char c :: nat
      in (65 \<le> n \<and> n \<le> 90) \<or> (192 \<le> n \<and> n \<le> 222 \<and> n \<noteq> 215))"

definition toLowerCase_char :: "char \<Rightarrow> char" where
  "toLowerCase_char c = (if upper_case c then char_of (of_char c + (32 :: nat)) else c)"

definition toLowerCase :: "string \<Rightarrow> string" where
  "toLowerCase s = map toLowerCase_char s"

text \<open>\<open>String.prototype.includes\<close>: does the search string occur at some position?\<close>

fun js_includes :: "string \<Rightarrow> string \<Rightarrow> bool" where
  "js_includes [] searchString = (searchString = [])"
| "js_includes (c # cs) searchString =
     (prefix searchString (c # cs) \<or> js_includes cs searchString)"

text \<open>\<open>Array.prototype.join\<close> on an array of strings.\<close>

fun join :: "string \<Rightarrow> string list \<Rightarrow> string" where
  "join sep [] = []"
| "join sep [x] = x"
| "join sep (x # y # ys) = x @ sep @ join sep (y # ys)"

text \<open>A count in a template literal: its decimal digits.\<close>

function string_of_nat :: "nat \<Rightarrow> string" where
  "string_of_nat n =
     (if n < 10 then [''0123456789'' ! n]
      else string_of_nat (n div 10) @ [''0123456789'' ! (n mod 10)])"
  by pat_completeness auto
termination
  by (relation "measure id") auto

text \<open>The payload every tool returns: \<open>{ content: [{ type: "text", text }] }\<close>.\<close>

definition text_response :: "json \<Rightarrow> json" where
  "text_response t = JObj [(''content'', JArr [JObj [(''type'', JStr ''text''), (''text'', t)]])]"

text \<open>\<open>Cache.get\<close> returns \<open>null\<close> for a key it does not hold.\<close>

definition or_null :: "json option \<Rightarrow> json" where
  "or_null r = (case r of None \<Rightarrow> JNull | Some v \<Rightarrow> v)"

section \<open>utils/validation.ts\<close>

text \<open>
  The schemas are built with the zod library, of which the server uses: a string with
  optional length bounds, \<open>any\<close>, \<open>optional\<close>, and an object of such fields, parsed in the
  library's default mode (unknown keys are dropped, every issue is collected). An issue is
  a path and a message; the messages are those of the library's default error map.
\<close>

datatype zod = ZString "nat option" "nat option" | ZAny | ZOptional zod

definition stringSchema :: zod where
  "stringSchema = ZString (Some 1) (Some 1000)"

definition optionalStringSchema :: zod where
  "optionalStringSchema = ZOptional (ZString None None)"

definition parsed_type :: "json \<Rightarrow> string" where
  "parsed_type v =
     (case v of
        JUndefined \<Rightarrow> ''undefined''
      | JNull \<Rightarrow> ''null''
      | JBool b \<Rightarrow> ''boolean''
      | JNum n \<Rightarrow> ''number''
      | JStr s \<Rightarrow> ''string''
      | JArr xs \<Rightarrow> ''array''
      | JObj kvs \<Rightarrow> ''object'')"

fun zod_issues :: "zod \<Rightarrow> json \<Rightarrow> string list" where
  "zod_issues ZAny v = []"
| "zod_issues (ZOptional s) v = (if v = JUndefined then [] else zod_issues s v)"
| "zod_issues (ZString minimum maximum) v =
     (case v of
        JStr s \<Rightarrow>
          (case minimum of
             Some m \<Rightarrow>
               if length s < m
               then [''String must contain at least '' @ string_of_nat m @ '' character(s)'']
               else []
           | None \<Rightarrow> []) @
          (case maximum of
             Some m \<Rightarrow>
               if length s > m
               then [''String must contain at most '' @ string_of_nat m @ '' character(s)'']
               else []
           | None \<Rightarrow> [])
      | JUndefined \<Rightarrow> [''Required'']
      | _ \<Rightarrow> [''Expected string, received '' @ parsed_type v])"

text \<open>\<open>z.object(shape).parse(v)\<close>: the issues thrown as a ZodError, or the parsed object.\<close>

definition z_object_parse ::
    "(string \<times> zod) list \<Rightarrow> json \<Rightarrow> (string list \<times> string) list + json" where
  "z_object_parse shape v =
     (case v of
        JObj kvs \<Rightarrow>
          (let issues =
                 concat (map (\<lambda>(key, s). map (\<lambda>message. ([key], message))
                                              (zod_issues s (get_prop v key))) shape)
           in if issues = []
              then Inr (JObj (filter (\<lambda>(key, x). x \<noteq> JUndefined)
                                (map (\<lambda>(key, s). (key, get_prop v key)) shape)))
              else Inl issues)
      | _ \<Rightarrow> Inl [([], ''Expected object, received '' @ parsed_type v)])"

definition methodSchemas :: "(string \<times> (string \<times> zod) list) list" where
  "methodSchemas =
     [(''get_anime_component'', [(''componentName'', stringSchema)]),
      (''list_anime_components'', [(''category'', optionalStringSchema)]),
      (''get_anime_example'', [(''exampleType'', stringSchema)]),
      (''search_anime_examples'', [(''query'', stringSchema)]),
      (''get_anime_docs'', [(''topic'', stringSchema)]),
      (''list_resources'', []),
      (''list_resource_templates'', []),
      (''list_tools'', []),
      (''list_prompts'', []),
      (''read_resource'', [(''uri'', stringSchema)]),
      (''get_prompt'', [(''name'', stringSchema), (''arguments'', ZOptional ZAny)]),
      (''call_tool'', [(''name'', stringSchema), (''arguments'', ZOptional ZAny)])]"

definition validateAndSanitizeParams :: "string \<Rightarrow> json \<Rightarrow> error + json" where
  "validateAndSanitizeParams method params =
     (case lookup_property methodSchemas method of
        Absent \<Rightarrow> Inr (or_empty_object params)
      | Inherited member \<Rightarrow> Inl (TypeError ''schema.parse'')
      | Own schema \<Rightarrow>
          (case z_object_parse schema (or_empty_object params) of
             Inr parsed \<Rightarrow> Inr parsed
           | Inl errors \<Rightarrow>
               Inl (Error (''Validation failed for '' @ method @ '': '' @
                      join '', '' (map (\<lambda>(path, message). join ''.'' path @ '': '' @ message)
                                     errors)))))"

section \<open>handler.ts: the wrapper of every request\<close>

text \<open>
  \<open>handleRequest\<close>: validate, then run the handler inside the breaker. The \<open>catch\<close> logs
  and rethrows, so an error passes through unchanged.
\<close>

definition handleRequest :: "string \<Rightarrow> json \<Rightarrow> (json \<Rightarrow> 'a operation) \<Rightarrow> 'a operation" where
  "handleRequest method params handler w =
     (case validateAndSanitizeParams method params of
        Inl err \<Rightarrow> (Inl err, w)
      | Inr validatedParams \<Rightarrow> execute (handler validatedParams) w)"

section \<open>The tools\<close>

subsection \<open>tools/components/get-anime-component.ts\<close>

record parameter =
  p_name :: string
  p_type :: string
  p_description :: string
  p_default :: "string option"

record component =
  c_name :: string
  c_type :: string
  c_description :: string
  c_syntax :: string
  c_parameters :: "parameter list"
  c_properties :: "string list option"
  c_methods :: "string list option"
  c_callbacks :: "string list option"
  c_example :: string

definition components :: "(string \<times> component) list" where
  \<open>components =
   [(''anime'',
      \<lparr>c_name = ''anime()'',
       c_type = ''Main Animation Function'',
       c_description = ''The primary function for creating animations in Anime.js'',
       c_syntax = ''anime(animationObject)'',
       c_parameters =
         [\<lparr>p_name = ''targets'', p_type = ''string | Element | NodeList | Array'',
           p_description = ''CSS selector or DOM elements to animate'', p_default = None\<rparr>,
          \<lparr>p_name = ''duration'', p_type = ''number'',
           p_description = ''Animation duration in milliseconds'', p_default = Some ''1000''\<rparr>,
          \<lparr>p_name = ''easing'', p_type = ''string | Array'',
           p_description = ''Easing function'', p_default = Some ''easeOutElastic''\<rparr>,
          \<lparr>p_name = ''delay'', p_type = ''number | Function'',
           p_description = ''Delay before animation starts'', p_default = Some ''0''\<rparr>,
          \<lparr>p_name = ''direction'', p_type = ''string'',
           p_description = ''Animation direction'', p_default = Some ''normal''\<rparr>,
          \<lparr>p_name = ''loop'', p_type = ''boolean | number'',
           p_description = ''Loop animation'', p_default = Some ''false''\<rparr>,
          \<lparr>p_name = ''autoplay'', p_type = ''boolean'',
           p_description = ''Start animation automatically'', p_default = Some ''true''\<rparr>],
       c_properties = Some
          [''translateX'', ''translateY'', ''translateZ'', ''rotate'',
           ''rotateX'', ''rotateY'', ''rotateZ'', ''scale'', ''scaleX'',
           ''scaleY'', ''scaleZ'', ''skewX'', ''skewY'', ''opacity'',
           ''backgroundColor'', ''color'', ''borderRadius'', ''width'',
           ''height'', ''left'', ''top''],
       c_methods = Some
          [''play()'', ''pause()'', ''restart()'', ''reverse()'', ''seek(time)'',
           ''remove()''],
       c_callbacks = Some
          [''update'', ''begin'', ''complete'', ''loopBegin'', ''loopComplete'',
           ''change'', ''changeBegin'', ''changeComplete''],
       c_example =
         ''anime({\<newline>'' @
         ''  targets: '.element',\<newline>'' @
         ''  translateX: 250,\<newline>'' @
         ''  rotate: '1turn',\<newline>'' @
         ''  backgroundColor: '#FFF',\<newline>'' @
         ''  duration: 2000,\<newline>'' @
         ''  easing: 'easeInOutQuad',\<newline>'' @
         ''  complete: () => console.log('Animation finished!')\<newline>'' @
         ''});''\<rparr>),
    (''timeline'',
      \<lparr>c_name = ''anime.timeline()'',
       c_type = ''Timeline Function'',
       c_description = ''Create and control a sequence of animations'',
       c_syntax = ''anime.timeline(parameters)'',
       c_parameters =
         [\<lparr>p_name = ''easing'', p_type = ''string'',
           p_description = ''Default easing for all animations'', p_default = None\<rparr>,
          \<lparr>p_name = ''duration'', p_type = ''number'',
           p_description = ''Default duration for all animations'', p_default = None\<rparr>,
          \<lparr>p_name = ''direction'', p_type = ''string'',
           p_description = ''Default direction for all animations'', p_default = None\<rparr>,
          \<lparr>p_name = ''loop'', p_type = ''boolean | number'',
           p_description = ''Loop the entire timeline'', p_default = None\<rparr>,
          \<lparr>p_name = ''autoplay'', p_type = ''boolean'',
           p_description = ''Start timeline automatically'', p_default = Some ''true''\<rparr>],
       c_properties = None,
       c_methods = Some
          [''add(animation, offset)'', ''play()'', ''pause()'', ''restart()'',
           ''reverse()'', ''seek(time)''],
       c_callbacks = None,
       c_example =
         ''const tl = anime.timeline({\<newline>'' @
         ''  easing: 'easeOutExpo',\<newline>'' @
         ''  duration: 750\<newline>'' @
         ''});\<newline>'' @
         ''\<newline>'' @
         ''tl.add({\<newline>'' @
         ''  targets: '.title',\<newline>'' @
         ''  translateY: [-100, 0],\<newline>'' @
         ''  opacity: [0, 1]\<newline>'' @
         ''}).add({\<newline>'' @
         ''  targets: '.subtitle',\<newline>'' @
         ''  translateX: [-50, 0],\<newline>'' @
         ''  opacity: [0, 1],\<newline>'' @
         ''  offset: '-=600'\<newline>'' @
         ''}).add({\<newline>'' @
         ''  targets: '.button',\<newline>'' @
         ''  scale: [0, 1],\<newline>'' @
         ''  offset: '-=500'\<newline>'' @
         ''});''\<rparr>),
    (''stagger'',
      \<lparr>c_name = ''anime.stagger()'',
       c_type = ''Stagger Function'',
       c_description = ''Create staggered delays for multiple elements'',
       c_syntax = ''anime.stagger(value, options)'',
       c_parameters =
         [\<lparr>p_name = ''value'', p_type = ''number'',
           p_description = ''Base delay value in milliseconds'', p_default = None\<rparr>,
          \<lparr>p_name = ''grid'', p_type = ''Array'',
           p_description = ''[columns, rows] for grid-based stagger'', p_default = None\<rparr>,
          \<lparr>p_name = ''from'', p_type = ''string | number | Array'',
           p_description = ''Starting point for stagger'', p_default = None\<rparr>,
          \<lparr>p_name = ''direction'', p_type = ''string'',
           p_description = ''Stagger direction'', p_default = Some ''normal''\<rparr>,
          \<lparr>p_name = ''easing'', p_type = ''string'',
           p_description = ''Easing function for stagger values'', p_default = None\<rparr>],
       c_properties = None,
       c_methods = None,
       c_callbacks = None,
       c_example =
         ''// Basic stagger\<newline>'' @
         ''anime({\<newline>'' @
         ''  targets: '.item',\<newline>'' @
         ''  translateY: 50,\<newline>'' @
         ''  delay: anime.stagger(100)\<newline>'' @
         ''});\<newline>'' @
         ''\<newline>'' @
         ''// Grid stagger\<newline>'' @
         ''anime({\<newline>'' @
         ''  targets: '.grid-item',\<newline>'' @
         ''  scale: [0, 1],\<newline>'' @
         ''  delay: anime.stagger(50, {\<newline>'' @
         ''    grid: [10, 10],\<newline>'' @
         ''    from: 'center'\<newline>'' @
         ''  })\<newline>'' @
         ''});''\<rparr>),
    (''path'',
      \<lparr>c_name = ''anime.path()'',
       c_type = ''SVG Path Function'',
       c_description = ''Create path-based animations for SVG elements'',
       c_syntax = ''anime.path(pathElement)'',
       c_parameters =
         [\<lparr>p_name = ''pathElement'', p_type = ''string | Element'',
           p_description = ''SVG path element or selector'', p_default = None\<rparr>],
       c_properties = Some
          [''translateX'', ''translateY'', ''rotate''],
       c_methods = None,
       c_callbacks = None,
       c_example =
         ''const path = anime.path('svg path');\<newline>'' @
         ''\<newline>'' @
         ''anime({\<newline>'' @
         ''  targets: '.element',\<newline>'' @
         ''  translateX: path('x'),\<newline>'' @
         ''  translateY: path('y'),\<newline>'' @
         ''  rotate: path('angle'),\<newline>'' @
         ''  duration: 3000,\<newline>'' @
         ''  easing: 'easeInOutQuad'\<newline>'' @
         ''});''\<rparr>),
    (''random'',
      \<lparr>c_name = ''anime.random()'',
       c_type = ''Utility Function'',
       c_description = ''Generate random values for animations'',
       c_syntax = ''anime.random(min, max)'',
       c_parameters =
         [\<lparr>p_name = ''min'', p_type = ''number'',
           p_description = ''Minimum value'', p_default = None\<rparr>,
          \<lparr>p_name = ''max'', p_type = ''number'',
           p_description = ''Maximum value'', p_default = None\<rparr>],
       c_properties = None,
       c_methods = None,
       c_callbacks = None,
       c_example =
         ''anime({\<newline>'' @
         ''  targets: '.element',\<newline>'' @
         ''  translateX: () => anime.random(-100, 100),\<newline>'' @
         ''  translateY: () => anime.random(-100, 100),\<newline>'' @
         ''  scale: () => anime.random(0.5, 2),\<newline>'' @
         ''  duration: 2000\<newline>'' @
         ''});''\<rparr>)]\<close>


text \<open>One bullet of the parameter list, with its default when it has a non-empty one.\<close>

definition format_parameter :: "parameter \<Rightarrow> string" where
  \<open>format_parameter param =
     ''- **'' @ p_name param @ ''** ('' @ p_type param @ ''): '' @ p_description param @
     (case p_default param of
        Some d \<Rightarrow> if d \<noteq> [] then '' - Default: `'' @ d @ ''`'' else []
      | None \<Rightarrow> []) @
     ''\<newline>''\<close>

definition format_section :: "string \<Rightarrow> string list option \<Rightarrow> string" where
  \<open>format_section heading items =
     (case items of
        Some xs \<Rightarrow>
          ''## '' @ heading @ ''\<newline>\<newline>'' @
          join ''\<newline>'' (map (\<lambda>x. ''- '' @ x) xs) @ ''\<newline>\<newline>''
      | None \<Rightarrow> [])\<close>

text \<open>
  What a template literal prints for \<open>component.name\<close> when \<open>component\<close> is a member of
  \<open>Object.prototype\<close>: the function \<open>Object\<close> for \<open>constructor\<close>, the prototype object
  (which has no \<open>name\<close>) for \<open>__proto__\<close>, a method named as its key otherwise.
\<close>

definition inherited_name :: "string \<Rightarrow> string" where
  "inherited_name member =
     (if member = ''constructor'' then ''Object''
      else if member = ''__proto__'' then ''undefined''
      else member)"

definition getComponentInfo :: "string \<Rightarrow> json" where
  \<open>getComponentInfo componentName =
     (let normalizedName =
            filter (\<lambda>c. c \<noteq> CHR ''('' \<and> c \<noteq> CHR '')'') (toLowerCase componentName)
      in case lookup_property components normalizedName of
           Absent \<Rightarrow>
             text_response (JStr
               (''Component "'' @ componentName @ ''" not found. Available components: '' @
                join '', '' (map fst components)))
         | Inherited member \<Rightarrow>
             text_response (JStr
               (''# '' @ inherited_name member @ ''\<newline>\<newline>'' @
                ''**Type:** undefined\<newline>\<newline>'' @
                ''**Description:** undefined\<newline>\<newline>'' @
                ''**Syntax:** `undefined`\<newline>\<newline>''))
         | Own component \<Rightarrow>
             text_response (JStr
               (''# '' @ c_name component @ ''\<newline>\<newline>'' @
                ''**Type:** '' @ c_type component @ ''\<newline>\<newline>'' @
                ''**Description:** '' @ c_description component @ ''\<newline>\<newline>'' @
                ''**Syntax:** `'' @ c_syntax component @ ''`\<newline>\<newline>'' @
                ''## Parameters\<newline>\<newline>'' @
                concat (map format_parameter (c_parameters component)) @ ''\<newline>'' @
                format_section ''Animatable Properties'' (c_properties component) @
                format_section ''Methods'' (c_methods component) @
                format_section ''Callbacks'' (c_callbacks component) @
                (if c_example component \<noteq> []
                 then ''## Example\<newline>\<newline>```javascript\<newline>'' @ c_example component @
                      ''\<newline>```\<newline>''
                 else []))))\<close>

text \<open>
  The handler. \<open>componentName.toLowerCase()\<close> raises a TypeError unless the argument is a
  string. Handlers run without suspension, so one reading of the clock serves \<open>get\<close> and
  \<open>set\<close>.
\<close>

definition handleGetAnimeComponent :: "json \<Rightarrow> json operation" where
  "handleGetAnimeComponent params w =
     (case get_prop params ''componentName'' of
        JStr componentName \<Rightarrow>
          (let cacheKey = ''anime-component-'' @ toLowerCase componentName;
               (found, c) = Cache_get cacheKey (clock w) (cache w);
               cached = or_null found
           in if truthy cached then (Inr cached, w\<lparr>cache := c\<rparr>)
              else
                let componentInfo = getComponentInfo componentName
                in (Inr componentInfo,
                    w\<lparr>cache := Cache_set cacheKey componentInfo (Some (30 * 60 * 1000)) (clock w) c\<rparr>))
      | _ \<Rightarrow> (Inl (TypeError ''componentName.toLowerCase''), w))"

subsection \<open>tools/examples/search-anime-examples.ts\<close>

record example =
  ex_id :: string
  ex_title :: string
  ex_description :: string
  ex_category :: string
  ex_tags :: "string list"
  ex_code :: string

definition examples :: "example list" where
  \<open>examples =
   [\<lparr>ex_id = ''basic-transform'',
      ex_title = ''Basic Transform Animation'',
      ex_description = ''Simple transform animation with translate, rotate, and scale'',
      ex_category = ''Basic'',
      ex_tags = [''transform'', ''translate'', ''rotate'', ''scale'', ''basic'', ''simple''],
      ex_code =
        ''anime({\<newline>'' @
        ''  targets: '.element',\<newline>'' @
        ''  translateX: 250,\<newline>'' @
        ''  rotate: '1turn',\<newline>'' @
        ''  scale: 1.5,\<newline>'' @
        ''  duration: 2000\<newline>'' @
        ''});''\<rparr>,
    \<lparr>ex_id = ''timeline-sequence'',
      ex_title = ''Timeline Sequence Animation'',
      ex_description = ''Sequential animations using timeline with offset control'',
      ex_category = ''Timeline'',
      ex_tags = [''timeline'', ''sequence'', ''sequential'', ''offset'', ''chain''],
      ex_code =
        ''const tl = anime.timeline();\<newline>'' @
        ''tl.add({\<newline>'' @
        ''  targets: '.title',\<newline>'' @
        ''  translateY: [-100, 0]\<newline>'' @
        ''}).add({\<newline>'' @
        ''  targets: '.subtitle',\<newline>'' @
        ''  translateX: [-50, 0],\<newline>'' @
        ''  offset: '-=600'\<newline>'' @
        ''});''\<rparr>,
    \<lparr>ex_id = ''stagger-grid'',
      ex_title = ''Staggered Grid Animation'',
      ex_description = ''Grid-based stagger animation from center outward'',
      ex_category = ''Stagger'',
      ex_tags = [''stagger'', ''grid'', ''delay'', ''multiple'', ''elements''],
      ex_code =
        ''anime({\<newline>'' @
        ''  targets: '.grid .item',\<newline>'' @
        ''  scale: [0, 1],\<newline>'' @
        ''  delay: anime.stagger(100, {\<newline>'' @
        ''    grid: [8, 6],\<newline>'' @
        ''    from: 'center'\<newline>'' @
        ''  })\<newline>'' @
        ''});''\<rparr>,
    \<lparr>ex_id = ''svg-path'',
      ex_title = ''SVG Path Animation'',
      ex_description = ''Animate along SVG paths and draw strokes'',
      ex_category = ''SVG'',
      ex_tags = [''svg'', ''path'', ''stroke'', ''draw'', ''morphing'', ''vector''],
      ex_code =
        ''anime({\<newline>'' @
        ''  targets: 'path',\<newline>'' @
        ''  strokeDashoffset: [anime.setDashoffset, 0],\<newline>'' @
        ''  duration: 1500\<newline>'' @
        ''});''\<rparr>,
    \<lparr>ex_id = ''morphing'',
      ex_title = ''CSS Property Morphing'',
      ex_description = ''Animate CSS properties for shape and color morphing'',
      ex_category = ''Morphing'',
      ex_tags = [''morph'', ''css'', ''properties'', ''shape'', ''color'', ''size''],
      ex_code =
        ''anime({\<newline>'' @
        ''  targets: '.box',\<newline>'' @
        ''  width: [50, 200],\<newline>'' @
        ''  backgroundColor: '#FF6B6B',\<newline>'' @
        ''  borderRadius: ['0%', '50%'],\<newline>'' @
        ''  duration: 2000\<newline>'' @
        ''});''\<rparr>,
    \<lparr>ex_id = ''keyframes'',
      ex_title = ''Keyframes Animation'',
      ex_description = ''Complex animations using keyframes with different timings'',
      ex_category = ''Advanced'',
      ex_tags = [''keyframes'', ''complex'', ''timing'', ''advanced'', ''multiple''],
      ex_code =
        ''anime({\<newline>'' @
        ''  targets: '.element',\<newline>'' @
        ''  keyframes: [\<newline>'' @
        ''    {translateY: -40, duration: 300},\<newline>'' @
        ''    {rotateZ: 360, duration: 800},\<newline>'' @
        ''    {translateY: 0, duration: 800}\<newline>'' @
        ''  ]\<newline>'' @
        ''});''\<rparr>,
    \<lparr>ex_id = ''text-animation'',
      ex_title = ''Text Animation'',
      ex_description = ''Animate text letter by letter with stagger effects'',
      ex_category = ''Text'',
      ex_tags = [''text'', ''letters'', ''typography'', ''stagger'', ''writing''],
      ex_code =
        ''anime({\<newline>'' @
        ''  targets: '.text .letter',\<newline>'' @
        ''  translateY: ["1.1em", 0],\<newline>'' @
        ''  delay: (el, i) => 50 * i\<newline>'' @
        ''});''\<rparr>,
    \<lparr>ex_id = ''elastic-bounce'',
      ex_title = ''Elastic and Bounce Effects'',
      ex_description = ''Using elastic and bounce easing functions for dynamic effects'',
      ex_category = ''Easing'',
      ex_tags = [''elastic'', ''bounce'', ''easing'', ''spring'', ''physics''],
      ex_code =
        ''anime({\<newline>'' @
        ''  targets: '.element',\<newline>'' @
        ''  translateX: 300,\<newline>'' @
        ''  easing: 'easeOutElastic(1, .8)',\<newline>'' @
        ''  duration: 1500\<newline>'' @
        ''});''\<rparr>,
    \<lparr>ex_id = ''loading-spinner'',
      ex_title = ''Loading Spinner Animation'',
      ex_description = ''Create animated loading spinners and loaders'',
      ex_category = ''UI'',
      ex_tags = [''loading'', ''spinner'', ''loader'', ''ui'', ''rotation''],
      ex_code =
        ''anime({\<newline>'' @
        ''  targets: '.spinner',\<newline>'' @
        ''  rotate: '1turn',\<newline>'' @
        ''  duration: 1000,\<newline>'' @
        ''  loop: true,\<newline>'' @
        ''  easing: 'linear'\<newline>'' @
        ''});''\<rparr>,
    \<lparr>ex_id = ''button-hover'',
      ex_title = ''Button Hover Effects'',
      ex_description = ''Interactive button animations on hover and click'',
      ex_category = ''Interactive'',
      ex_tags = [''button'', ''hover'', ''click'', ''interactive'', ''ui''],
      ex_code =
        ''const button = document.querySelector('.button');\<newline>'' @
        ''button.addEventListener('mouseenter', () => {\<newline>'' @
        ''  anime({\<newline>'' @
        ''    targets: button,\<newline>'' @
        ''    scale: 1.1,\<newline>'' @
        ''    duration: 300\<newline>'' @
        ''  });\<newline>'' @
        ''});''\<rparr>,
    \<lparr>ex_id = ''card-flip'',
      ex_title = ''Card Flip Animation'',
      ex_description = ''3D card flip effects with perspective transforms'',
      ex_category = ''3D'',
      ex_tags = [''card'', ''flip'', ''3d'', ''perspective'', ''transform''],
      ex_code =
        ''anime({\<newline>'' @
        ''  targets: '.card',\<newline>'' @
        ''  rotateY: 180,\<newline>'' @
        ''  duration: 800,\<newline>'' @
        ''  easing: 'easeInOutQuart'\<newline>'' @
        ''});''\<rparr>,
    \<lparr>ex_id = ''particles'',
      ex_title = ''Particle System'',
      ex_description = ''Create particle effects with random movements'',
      ex_category = ''Effects'',
      ex_tags = [''particles'', ''random'', ''effects'', ''system'', ''dots''],
      ex_code =
        ''anime({\<newline>'' @
        ''  targets: '.particle',\<newline>'' @
        ''  translateX: () => anime.random(-500, 500),\<newline>'' @
        ''  translateY: () => anime.random(-500, 500),\<newline>'' @
        ''  scale: () => anime.random(0.1, 2),\<newline>'' @
        ''  duration: 3000\<newline>'' @
        ''});''\<rparr>]\<close>


text \<open>
  \<open>searchExamples\<close> in its two steps: the filter that selects \<open>matchedExamples\<close>, and
  the text built from them.
\<close>

definition matchedExamples :: "string \<Rightarrow> example list" where
  "matchedExamples query =
     (let queryLower = toLowerCase query
      in filter (\<lambda>example.
             js_includes (toLowerCase (ex_title example)) queryLower \<or>
             js_includes (toLowerCase (ex_description example)) queryLower \<or>
             js_includes (toLowerCase (ex_category example)) queryLower \<or>
             list_ex (\<lambda>tag. js_includes tag queryLower) (ex_tags example) \<or>
             js_includes (toLowerCase (ex_code example)) queryLower)
           examples)"

definition format_match :: "nat \<times> example \<Rightarrow> string" where
  \<open>format_match = (\<lambda>(index, example).
     ''## '' @ string_of_nat (index + 1) @ ''. '' @ ex_title example @ ''\<newline>'' @
     ''**Category:** '' @ ex_category example @ ''\<newline>'' @
     ''**Description:** '' @ ex_description example @ ''\<newline>'' @
     ''**Tags:** '' @ join '', '' (ex_tags example) @ ''\<newline>\<newline>'' @
     ''**Code Preview:**\<newline>```javascript\<newline>'' @ ex_code example @
     ''\<newline>```\<newline>\<newline>'' @
     ''*Use `get_anime_example` with type `'' @ ex_id example @
     ''` for complete example*\<newline>\<newline>'' @
     ''---\<newline>\<newline>'')\<close>

definition searchExamples :: "string \<Rightarrow> json" where
  \<open>searchExamples query =
     (if length (matchedExamples query) = 0
      then text_response (JStr
             (''No examples found for "'' @ query @ ''". Try searching for terms like:\<newline>'' @
              ''- transform, rotate, scale\<newline>'' @
              ''- timeline, sequence\<newline>'' @
              ''- stagger, grid\<newline>'' @
              ''- svg, path\<newline>'' @
              ''- text, letters\<newline>'' @
              ''- elastic, bounce\<newline>'' @
              ''- morphing, keyframes''))
      else text_response (JStr
             (''# Anime.js Examples Search Results\<newline>\<newline>'' @
              ''Found '' @ string_of_nat (length (matchedExamples query)) @
              '' example(s) for "'' @ query @ ''":\<newline>\<newline>'' @
              concat (map format_match (enumerate 0 (matchedExamples query))))))\<close>

definition handleSearchAnimeExamples :: "json \<Rightarrow> json operation" where
  "handleSearchAnimeExamples params w =
     (case get_prop params ''query'' of
        JStr query \<Rightarrow>
          (let cacheKey = ''anime-examples-search-'' @ toLowerCase query;
               (found, c) = Cache_get cacheKey (clock w) (cache w);
               cached = or_null found
           in if truthy cached then (Inr cached, w\<lparr>cache := c\<rparr>)
              else
                let results = searchExamples query
                in (Inr results,
                    w\<lparr>cache := Cache_set cacheKey results (Some (15 * 60 * 1000)) (clock w) c\<rparr>))
      | _ \<Rightarrow> (Inl (TypeError ''query.toLowerCase''), w))"

subsection \<open>tools/repository/get-anime-docs.ts\<close>

text \<open>
  The documentation table: its six keys and titles are as in the source; the markdown body
  of each entry (some nine hundred lines in all) is the parameter \<open>body\<close>, a function of
  the key.
\<close>

record doc =
  d_title :: string
  d_content :: string

definition docs :: "(string \<Rightarrow> string) \<Rightarrow> (string \<times> doc) list" where
  "docs body =
     map (\<lambda>(key, title). (key, \<lparr>d_title = title, d_content = body key\<rparr>))
       [(''getting-started'', ''Getting Started with Anime.js''),
        (''animation-controls'', ''Animation Controls''),
        (''easing'', ''Easing Functions''),
        (''performance'', ''Performance Optimization''),
        (''timeline'', ''Timeline and Sequencing''),
        (''stagger'', ''Stagger Effects'')]"

text \<open>
  For a member of \<open>Object.prototype\<close> the test \<open>!doc\<close> fails and \<open>doc.content\<close> is
  \<open>undefined\<close>.
\<close>

definition getDocumentation :: "(string \<Rightarrow> string) \<Rightarrow> string \<Rightarrow> json" where
  \<open>getDocumentation body topic =
     (let normalizedTopic =
            map (\<lambda>c. if c = CHR ''-'' \<or> c = CHR ''_'' then CHR ''-'' else c) (toLowerCase topic)
      in case lookup_property (docs body) normalizedTopic of
           Absent \<Rightarrow>
             text_response (JStr
               (''Documentation for "'' @ topic @ ''" not found. Available topics:\<newline>\<newline>'' @
                join ''\<newline>'' (map (\<lambda>key. ''- '' @ key) (map fst (docs body))) @
                ''\<newline>\<newline>Try searching for topics like: getting-started, '' @
                ''animation-controls, easing, performance, timeline, stagger''))
         | Inherited member \<Rightarrow> text_response JUndefined
         | Own d \<Rightarrow> text_response (JStr (d_content d)))\<close>

definition handleGetAnimeDocs :: "(string \<Rightarrow> string) \<Rightarrow> json \<Rightarrow> json operation" where
  "handleGetAnimeDocs body params w =
     (case get_prop params ''topic'' of
        JStr topic \<Rightarrow>
          (let cacheKey = ''anime-docs-'' @ toLowerCase topic;
               (found, c) = Cache_get cacheKey (clock w) (cache w);
               cached = or_null found
           in if truthy cached then (Inr cached, w\<lparr>cache := c\<rparr>)
              else
                let documentation = getDocumentation body topic
                in (Inr documentation,
                    w\<lparr>cache := Cache_set cacheKey documentation (Some (60 * 60 * 1000)) (clock w) c\<rparr>))
      | _ \<Rightarrow> (Inl (TypeError ''topic.toLowerCase''), w))"

section \<open>handler.ts: the request handlers\<close>

text \<open>
  What the dispatcher takes from the rest of the repository without looking inside, gathered
  in one record. The static tables are JSON values. The bodies of \<open>read_resource\<close> and
  \<open>get_prompt\<close> only read static tables, so they are functions of the validated
  parameters. The two tools that no property below is about,
  \<open>list_anime_components\<close> and \<open>get_anime_example\<close>, use the clock and the cache and
  nothing else. \<open>documentation\<close> is the markdown of the documentation table, and
  \<open>inherited_call\<close> the outcome of calling a member of \<open>Object.prototype\<close> as if it were a
  tool handler. Every theorem holds for all such records.
\<close>

type_synonym cache_operation = "int \<Rightarrow> json Cache \<Rightarrow> (error + json) \<times> json Cache"

record static =
  resources :: json
  resourceTemplates :: json
  registeredTools :: json
  prompts :: json
  read_resource :: "json \<Rightarrow> error + json"
  get_prompt :: "json \<Rightarrow> error + json"
  handleListAnimeComponents :: "json \<Rightarrow> cache_operation"
  handleGetAnimeExample :: "json \<Rightarrow> cache_operation"
  documentation :: "string \<Rightarrow> string"
  inherited_call :: "string \<Rightarrow> json \<Rightarrow> error + json"

definition with_cache :: "cache_operation \<Rightarrow> json operation" where
  "with_cache f w = (case f (clock w) (cache w) of (r, c) \<Rightarrow> (r, w\<lparr>cache := c\<rparr>))"

definition pure_handler :: "(error + json) \<Rightarrow> json operation" where
  "pure_handler r w = (r, w)"

text \<open>tools/index.ts: \<open>toolHandlers\<close>.\<close>

definition toolHandlers :: "static \<Rightarrow> (string \<times> (json \<Rightarrow> json operation)) list" where
  "toolHandlers st =
     [(''get_anime_component'', handleGetAnimeComponent),
      (''list_anime_components'', \<lambda>params. with_cache (handleListAnimeComponents st params)),
      (''get_anime_example'', \<lambda>params. with_cache (handleGetAnimeExample st params)),
      (''search_anime_examples'', handleSearchAnimeExamples),
      (''get_anime_docs'', handleGetAnimeDocs (documentation st))]"

text \<open>The handler given to \<open>handleRequest\<close> for \<open>call_tool\<close>.\<close>

definition call_tool :: "static \<Rightarrow> json \<Rightarrow> json operation" where
  "call_tool st validatedParams w =
     (let name = get_prop validatedParams ''name'';
          params = get_prop validatedParams ''arguments''
      in case name of
           JStr n \<Rightarrow>
             if n = [] then (Inl (Error ''Tool name is required''), w)
             else
               (case lookup_property (toolHandlers st) n of
                  Absent \<Rightarrow> (Inl (Error (''Tool not found: '' @ n)), w)
                | Own handler \<Rightarrow> execute (handler (or_empty_object params)) w
                | Inherited member \<Rightarrow>
                    execute (pure_handler (inherited_call st member (or_empty_object params))) w)
         | _ \<Rightarrow> (Inl (Error ''Tool name is required''), w))"

text \<open>
  \<open>setupHandlers\<close>: the seven handlers registered with the protocol server, by request
  schema. The argument of each request is \<open>request.params\<close>.
\<close>

datatype request =
    ListResourcesRequest json
  | ListResourceTemplatesRequest json
  | ListToolsRequest json
  | ReadResourceRequest json
  | ListPromptsRequest json
  | GetPromptRequest json
  | CallToolRequest json

fun setupHandlers :: "static \<Rightarrow> request \<Rightarrow> json operation" where
  "setupHandlers st (ListResourcesRequest params) =
     handleRequest ''list_resources'' params
       (\<lambda>validated. pure_handler (Inr (JObj [(''resources'', resources st)])))"
| "setupHandlers st (ListResourceTemplatesRequest params) =
     handleRequest ''list_resource_templates'' params
       (\<lambda>validated. pure_handler (Inr (JObj [(''resourceTemplates'', resourceTemplates st)])))"
| "setupHandlers st (ListToolsRequest params) =
     handleRequest ''list_tools'' params
       (\<lambda>validated. pure_handler (Inr (JObj [(''tools'', registeredTools st)])))"
| "setupHandlers st (ReadResourceRequest params) =
     handleRequest ''read_resource'' params
       (\<lambda>validated. pure_handler (read_resource st validated))"
| "setupHandlers st (ListPromptsRequest params) =
     handleRequest ''list_prompts'' params
       (\<lambda>validated. pure_handler (Inr (JObj [(''prompts'', prompts st)])))"
| "setupHandlers st (GetPromptRequest params) =
     handleRequest ''get_prompt'' params
       (\<lambda>validated. pure_handler (get_prompt st validated))"
| "setupHandlers st (CallToolRequest params) =
     handleRequest ''call_tool'' params (call_tool st)"

text \<open>The method name each request is validated under.\<close>

fun method_of :: "request \<Rightarrow> string" where
  "method_of (ListResourcesRequest params) = ''list_resources''"
| "method_of (ListResourceTemplatesRequest params) = ''list_resource_templates''"
| "method_of (ListToolsRequest params) = ''list_tools''"
| "method_of (ReadResourceRequest params) = ''read_resource''"
| "method_of (ListPromptsRequest params) = ''list_prompts''"
| "method_of (GetPromptRequest params) = ''get_prompt''"
| "method_of (CallToolRequest params) = ''call_tool''"

fun params_of :: "request \<Rightarrow> json" where
  "params_of (ListResourcesRequest params) = params"
| "params_of (ListResourceTemplatesRequest params) = params"
| "params_of (ListToolsRequest params) = params"
| "params_of (ReadResourceRequest params) = params"
| "params_of (ListPromptsRequest params) = params"
| "params_of (GetPromptRequest params) = params"
| "params_of (CallToolRequest params) = params"

section \<open>Vocabulary of the properties\<close>

subsection \<open>Operations and runs\<close>

text \<open>
  An operation \<open>leaves_breaker\<close> when it never writes the breaker (it may still change
  the cache and let time pass); it \<open>rejects\<close> when its promise is always rejected and
  \<open>resolves\<close> when it is always fulfilled.
\<close>

definition leaves_breaker :: "'a operation \<Rightarrow> bool" where
  "leaves_breaker f \<longleftrightarrow> (\<forall>w. external (snd (f w)) = external w)"

definition rejects :: "'a operation \<Rightarrow> bool" where
  "rejects f \<longleftrightarrow> (\<forall>w. isl (fst (f w)))"

definition resolves :: "'a operation \<Rightarrow> bool" where
  "resolves f \<longleftrightarrow> (\<forall>w. \<not> isl (fst (f w)))"

text \<open>
  A run of consecutive calls of \<open>execute\<close>, one per operation, each awaited before the
  next.
\<close>

fun execute_all :: "'a operation list \<Rightarrow> world \<Rightarrow> world" where
  "execute_all [] w = w"
| "execute_all (f # fs) w = execute_all fs (snd (execute f w))"

text \<open>The assignment \<open>this.state = 'HALF_OPEN'\<close> of \<open>execute\<close>, on its own.\<close>

definition half_open :: "world \<Rightarrow> world" where
  "half_open w = w\<lparr>external := (external w)\<lparr>state := HALF_OPEN\<rparr>\<rparr>"

subsection \<open>The invariant of the breaker\<close>

text \<open>
  An operation is \<open>guarded\<close> when it reaches the breaker through \<open>execute\<close> only:
  calls may nest and follow one another, with any outcome. A state is \<open>reachable\<close> when
  calls of \<open>execute\<close> on guarded operations lead to it from a newly constructed
  breaker, with anything happening to the cache and the clock in between. Calls may also
  overlap in time, each suspended at its \<open>await\<close> while others run; the steps of
  \<open>execute\<close> that then interleave are its gate turning OPEN into HALF_OPEN, \<open>onSuccess\<close>
  and \<open>onFailure\<close>, and each is a rule of its own.
\<close>

definition breaker_inv :: "CircuitBreaker \<Rightarrow> bool" where
  "breaker_inv b \<longleftrightarrow> (state b = OPEN \<longrightarrow> failureThreshold (options b) \<le> failures b)"

inductive_set guarded :: "json operation set" where
  leaf: "leaves_breaker f \<Longrightarrow> f \<in> guarded"
| nested: "f \<in> guarded \<Longrightarrow> execute f \<in> guarded"
| bind: "f \<in> guarded \<Longrightarrow> (\<And>r. k r \<in> guarded) \<Longrightarrow> (\<lambda>w. case f w of (r, w') \<Rightarrow> k r w') \<in> guarded"

inductive reachable :: "world \<Rightarrow> bool" where
  start: "external w = new_CircuitBreaker opts \<Longrightarrow> reachable w"
| call: "reachable w \<Longrightarrow> f \<in> guarded \<Longrightarrow> reachable (snd (execute f w))"
| idle: "reachable w \<Longrightarrow> external w' = external w \<Longrightarrow> reachable w'"
| gate: "reachable w \<Longrightarrow> state (external w) = OPEN \<Longrightarrow> shouldAttemptReset w \<Longrightarrow>
         reachable (half_open w)"
| settled: "reachable w \<Longrightarrow> reachable (onSuccess w)"
| failed: "reachable w \<Longrightarrow> reachable (onFailure w)"

subsection \<open>The cache\<close>

text \<open>The expiry test of \<open>Cache.get\<close>, named.\<close>

definition expired :: "int \<Rightarrow> 'v CacheItem \<Rightarrow> bool" where
  "expired now item \<longleftrightarrow> now > timestamp item + ttl item"

subsection \<open>The search, as the specification words it\<close>










subsection \<open>Tool calls\<close>

text \<open>
  A \<open>tools/call\<close> request for tool \<open>name\<close> with the given \<open>arguments\<close>, and the state a
  request leaves behind.
\<close>

definition tool_call :: "string \<Rightarrow> json \<Rightarrow> request" where
  "tool_call name args = CallToolRequest (JObj [(''name'', JStr name), (''arguments'', args)])"

definition after_call :: "static \<Rightarrow> json \<Rightarrow> world \<Rightarrow> world" where
  "after_call st params w = snd (setupHandlers st (CallToolRequest params) w)"

text \<open>
  The operation that \<open>call_tool\<close> wraps in the breaker for a tool name, when
  \<open>toolHandlers[name]\<close> is truthy: \<open>() => Promise.resolve(handler(params || {}))\<close>.
\<close>

definition tool_operation :: "static \<Rightarrow> string \<Rightarrow> json \<Rightarrow> json operation option" where
  "tool_operation st n args =
     (case lookup_property (toolHandlers st) n of
        Absent \<Rightarrow> None
      | Own handler \<Rightarrow> Some (handler (or_empty_object args))
      | Inherited member \<Rightarrow> Some (pure_handler (inherited_call st member (or_empty_object args))))"

text \<open>
  A failing tool invocation: the request passes validation and names a handler, the
  breaker lets the request in, and the request fails. The failure is then the one of the
  tool handler, since nothing else on that path can raise.
\<close>

definition tool_failure :: "static \<Rightarrow> json \<Rightarrow> world \<Rightarrow> bool" where
  "tool_failure st params w \<longleftrightarrow>
     (\<exists>validated n. validateAndSanitizeParams ''call_tool'' params = Inr validated
         \<and> get_prop validated ''name'' = JStr n
         \<and> lookup_property (toolHandlers st) n \<noteq> Absent)
     \<and> \<not> (state (external w) = OPEN \<and> \<not> shouldAttemptReset w)
     \<and> isl (fst (setupHandlers st (CallToolRequest params) w))"

subsection \<open>Sample operations, states and requests\<close>

text \<open>
  An operation that takes one millisecond and is rejected, one that takes one millisecond
  and is fulfilled, and one that reports the breaker state it runs in.
\<close>

definition failing_tick :: "json operation" where
  "failing_tick w = (Inl (Error ''boom''), w\<lparr>clock := clock w + 1\<rparr>)"

definition succeeding_tick :: "json operation" where
  "succeeding_tick w = (Inr JNull, w\<lparr>clock := clock w + 1\<rparr>)"

definition observe_state :: "breaker_state operation" where
  "observe_state w = (Inr (state (external w)), w)"

definition five_failing :: "json operation list" where
  "five_failing = [failing_tick, failing_tick, failing_tick, failing_tick, failing_tick]"

text \<open>
  The process state at start-up, and the state after five failing calls (the breaker is
  OPEN, the last failure was at time 5 and the clock reads 5).
\<close>

definition fresh_world :: world where
  "fresh_world = \<lparr>external = circuitBreakers_external, cache = [], clock = 0\<rparr>"

definition tripped_world :: world where
  "tripped_world = execute_all five_failing fresh_world"

text \<open>One choice of the static content, for closed examples.\<close>

definition sample_static :: static where
  "sample_static =
     \<lparr>resources = JArr [], resourceTemplates = JArr [], registeredTools = JArr [],
      prompts = JArr [],
      read_resource = (\<lambda>validated. Inl (Error ''Resource not found'')),
      get_prompt = (\<lambda>validated. Inl (Error ''Prompt not found'')),
      handleListAnimeComponents = (\<lambda>params now c. (Inr JNull, c)),
      handleGetAnimeExample = (\<lambda>params now c. (Inr JNull, c)),
      documentation = (\<lambda>key. []),
      inherited_call = (\<lambda>member args. Inl (TypeError member))\<rparr>"

text \<open>The parameters of a call of \<open>get_anime_component\<close> without \<open>componentName\<close>.\<close>

definition missing_name_call :: json where
  "missing_name_call = JObj [(''name'', JStr ''get_anime_component''), (''arguments'', JObj [])]"

text \<open>The parameters of a call of a tool that \<open>toolHandlers\<close> does not have.\<close>

definition unknown_tool_call :: json where
  "unknown_tool_call = JObj [(''name'', JStr ''no_such_tool''), (''arguments'', JObj [])]"

section \<open>Properties of the circuit breaker\<close>

text \<open>
  The three ways through \<open>execute\<close>: rejected at the gate, let through as it is, and let
  through as the trial call after the cooldown.
\<close>

lemma execute_rejected:
  assumes "state (external w) = OPEN" "\<not> shouldAttemptReset w"
  shows "execute f w = (Inl (Error ''Circuit breaker is OPEN''), w)"
  using assms by (simp add: execute_def)

lemma execute_not_open:
  assumes "state (external w) \<noteq> OPEN"
  shows "execute f w =
     (case f w of (Inr r, w2) \<Rightarrow> (Inr r, onSuccess w2) | (Inl e, w2) \<Rightarrow> (Inl e, onFailure w2))"
  using assms by (simp add: execute_def)

lemma execute_trial:
  assumes "state (external w) = OPEN" "shouldAttemptReset w"
  shows "execute f w =
     (case f (half_open w) of (Inr r, w2) \<Rightarrow> (Inr r, onSuccess w2) | (Inl e, w2) \<Rightarrow> (Inl e, onFailure w2))"
  using assms by (simp add: execute_def half_open_def)

lemma external_onFailure:
  "external (onFailure w) =
     (external w)\<lparr>failures := failures (external w) + 1,
                  lastFailureTime := Some (clock w),
                  state := (if failureThreshold (options (external w)) \<le> failures (external w) + 1
                            then OPEN else state (external w))\<rparr>"
  by (simp add: onFailure_def Let_def)

lemma external_onSuccess:
  "external (onSuccess w) = (external w)\<lparr>failures := 0, state := CLOSED\<rparr>"
  by (simp add: onSuccess_def)

lemma failing_call_closed:
  assumes "state (external w) = CLOSED" "leaves_breaker f" "rejects f"
  shows "external (snd (execute f w)) =
     (external w)\<lparr>failures := failures (external w) + 1,
                  lastFailureTime := Some (clock (snd (f w))),
                  state := (if failureThreshold (options (external w)) \<le> failures (external w) + 1
                            then OPEN else CLOSED)\<rparr>"
proof -
  obtain r w2 where fw: "f w = (r, w2)" by (cases "f w")
  from assms(3) fw have "isl r" by (auto simp: rejects_def dest: spec [of _ w])
  then obtain e where r: "r = Inl e" by (cases r) auto
  from assms(2) fw have ext: "external w2 = external w"
    by (auto simp: leaves_breaker_def dest: spec [of _ w])
  show ?thesis
    using assms(1) by (simp add: execute_not_open fw r external_onFailure ext)
qed

lemma failing_calls_below_threshold:
  assumes "state (external w) = CLOSED"
    and "\<forall>f\<in>set fs. leaves_breaker f \<and> rejects f"
    and "failures (external w) + length fs < failureThreshold (options (external w))"
  shows "state (external (execute_all fs w)) = CLOSED
       \<and> failures (external (execute_all fs w)) = failures (external w) + length fs
       \<and> options (external (execute_all fs w)) = options (external w)"
  using assms
proof (induction fs arbitrary: w)
  case Nil
  then show ?case by simp
next
  case (Cons f fs)
  let ?w = "snd (execute f w)"
  have step: "external ?w =
     (external w)\<lparr>failures := failures (external w) + 1,
                  lastFailureTime := Some (clock (snd (f w))),
                  state := (if failureThreshold (options (external w)) \<le> failures (external w) + 1
                            then OPEN else CLOSED)\<rparr>"
    using Cons.prems by (intro failing_call_closed) auto
  have below: "\<not> failureThreshold (options (external w)) \<le> failures (external w) + 1"
    using Cons.prems(3) by simp
  have "state (external (execute_all fs ?w)) = CLOSED
       \<and> failures (external (execute_all fs ?w)) = failures (external ?w) + length fs
       \<and> options (external (execute_all fs ?w)) = options (external ?w)"
    using Cons.prems below by (intro Cons.IH) (auto simp: step)
  then show ?case using below by (simp add: step)
qed

lemma execute_all_append:
  "execute_all (fs @ gs) w = execute_all gs (execute_all fs w)"
  by (induction fs arbitrary: w) auto

lemma five_failures_open:
  assumes thr: "failureThreshold (options (external w0)) = 5"
    and closed: "state (external w0) = CLOSED" and zero: "failures (external w0) = 0"
    and len: "length fs = 5" and ops: "\<forall>f\<in>set fs. leaves_breaker f \<and> rejects f"
  shows "state (external (execute_all fs w0)) = OPEN"
    and "failures (external (execute_all fs w0)) = 5"
    and "options (external (execute_all fs w0)) = options (external w0)"
    and "\<exists>t. lastFailureTime (external (execute_all fs w0)) = Some t"
proof -
  let ?w4 = "execute_all (take 4 fs) w0"
  have "take (Suc 4) fs = take 4 fs @ [fs ! 4]"
    using len by (intro take_Suc_conv_app_nth) simp
  then have fs: "fs = take 4 fs @ [fs ! 4]"
    using len by simp
  have four: "state (external ?w4) = CLOSED
       \<and> failures (external ?w4) = failures (external w0) + length (take 4 fs)
       \<and> options (external ?w4) = options (external w0)"
    using closed ops thr zero len
    by (intro failing_calls_below_threshold) (auto dest: in_set_takeD)
  have last: "leaves_breaker (fs ! 4)" "rejects (fs ! 4)"
    using ops len by auto
  have w5: "execute_all fs w0 = snd (execute (fs ! 4) ?w4)"
    by (subst fs) (simp add: execute_all_append)
  have ext: "external (execute_all fs w0) =
     (external ?w4)\<lparr>failures := failures (external ?w4) + 1,
                  lastFailureTime := Some (clock (snd ((fs ! 4) ?w4))),
                  state := (if failureThreshold (options (external ?w4)) \<le> failures (external ?w4) + 1
                            then OPEN else CLOSED)\<rparr>"
    unfolding w5 using four last by (intro failing_call_closed) auto
  show "state (external (execute_all fs w0)) = OPEN"
    using four thr zero len by (simp add: ext)
  show "failures (external (execute_all fs w0)) = 5"
    using four thr zero len by (simp add: ext)
  show "options (external (execute_all fs w0)) = options (external w0)"
    using four by (simp add: ext)
  show "\<exists>t. lastFailureTime (external (execute_all fs w0)) = Some t"
    by (simp add: ext)
qed

text \<open>
  Claim C2. A breaker with \<open>failureThreshold = 5\<close> that is CLOSED with no failures counted:
  it stays CLOSED through the first four of five consecutive failing calls and is OPEN after
  the fifth. From then on, as long as nothing else touches the breaker, a call made less than
  \<open>resetTimeout\<close> after the recorded last failure is rejected with the state untouched,
  whatever the wrapped operation is (so it is not invoked); a call made \<open>resetTimeout\<close> or
  more after it runs the operation once, on the state in which the breaker is HALF_OPEN, and
  when that operation succeeds the breaker is CLOSED with a failure count of 0.
\<close>

theorem breaker_five_failures_then_trial:
  assumes thr: "failureThreshold (options (external w0)) = 5"
    and closed: "state (external w0) = CLOSED" and zero: "failures (external w0) = 0"
    and len: "length fs = 5" and ops: "\<forall>f\<in>set fs. leaves_breaker f \<and> rejects f"
  shows "(\<forall>n<5. state (external (execute_all (take n fs) w0)) = CLOSED)
     \<and> state (external (execute_all fs w0)) = OPEN
     \<and> (\<exists>t. lastFailureTime (external (execute_all fs w0)) = Some t \<and>
          (\<forall>w. external w = external (execute_all fs w0) \<longrightarrow>
             (clock w - t < resetTimeout (options (external w)) \<longrightarrow>
                (\<forall>g :: 'b operation. execute g w = (Inl (Error ''Circuit breaker is OPEN''), w)))
           \<and> (clock w - t \<ge> resetTimeout (options (external w)) \<longrightarrow>
                (\<forall>g :: 'b operation. execute g w =
                       (case g (half_open w) of
                          (Inr r, w2) \<Rightarrow> (Inr r, onSuccess w2)
                        | (Inl e, w2) \<Rightarrow> (Inl e, onFailure w2))
                   \<and> (leaves_breaker g \<and> resolves g \<longrightarrow>
                        state (external (snd (execute g w))) = CLOSED
                      \<and> failures (external (snd (execute g w))) = 0)))))"
proof (intro conjI)
  show "\<forall>n<5. state (external (execute_all (take n fs) w0)) = CLOSED"
  proof (intro allI impI)
    fix n :: nat assume "n < 5"
    then have "state (external (execute_all (take n fs) w0)) = CLOSED
       \<and> failures (external (execute_all (take n fs) w0)) = failures (external w0) + length (take n fs)
       \<and> options (external (execute_all (take n fs) w0)) = options (external w0)"
      using closed ops thr zero len
      by (intro failing_calls_below_threshold) (auto dest: in_set_takeD)
    then show "state (external (execute_all (take n fs) w0)) = CLOSED" by simp
  qed
next
  show "state (external (execute_all fs w0)) = OPEN"
    using five_failures_open(1) [OF assms] .
next
  let ?w5 = "execute_all fs w0"
  obtain t where t: "lastFailureTime (external ?w5) = Some t"
    using five_failures_open(4) [OF assms] by blast
  have "\<forall>w. external w = external ?w5 \<longrightarrow>
             (clock w - t < resetTimeout (options (external w)) \<longrightarrow>
                (\<forall>g :: 'b operation. execute g w = (Inl (Error ''Circuit breaker is OPEN''), w)))
           \<and> (clock w - t \<ge> resetTimeout (options (external w)) \<longrightarrow>
                (\<forall>g :: 'b operation. execute g w =
                       (case g (half_open w) of
                          (Inr r, w2) \<Rightarrow> (Inr r, onSuccess w2)
                        | (Inl e, w2) \<Rightarrow> (Inl e, onFailure w2))
                   \<and> (leaves_breaker g \<and> resolves g \<longrightarrow>
                        state (external (snd (execute g w))) = CLOSED
                      \<and> failures (external (snd (execute g w))) = 0)))"
  proof (intro allI impI conjI)
    fix w :: world and g :: "'b operation"
    assume w: "external w = external ?w5"
      and early: "clock w - t < resetTimeout (options (external w))"
    have "state (external w) = OPEN"
      using w five_failures_open(1) [OF assms] by simp
    moreover have "\<not> shouldAttemptReset w"
      using w t early by (simp add: shouldAttemptReset_def)
    ultimately show "execute g w = (Inl (Error ''Circuit breaker is OPEN''), w)"
      by (rule execute_rejected)
  next
    fix w :: world and g :: "'b operation"
    assume w: "external w = external ?w5"
      and late: "resetTimeout (options (external w)) \<le> clock w - t"
    have op: "state (external w) = OPEN"
      using w five_failures_open(1) [OF assms] by simp
    have reset: "shouldAttemptReset w"
      using w t late by (simp add: shouldAttemptReset_def)
    show trial: "execute g w =
                       (case g (half_open w) of
                          (Inr r, w2) \<Rightarrow> (Inr r, onSuccess w2)
                        | (Inl e, w2) \<Rightarrow> (Inl e, onFailure w2))"
      using op reset by (rule execute_trial)
    assume g: "leaves_breaker g \<and> resolves g"
    obtain r w2 where gw: "g (half_open w) = (r, w2)" by (cases "g (half_open w)")
    from g gw have "\<not> isl r" by (auto simp: resolves_def dest: spec [of _ "half_open w"])
    then obtain v where r: "r = Inr v" by (cases r) auto
    show "state (external (snd (execute g w))) = CLOSED"
      by (simp add: trial gw r external_onSuccess)
    show "failures (external (snd (execute g w))) = 0"
      by (simp add: trial gw r external_onSuccess)
  qed
  with t show "\<exists>t. lastFailureTime (external ?w5) = Some t \<and>
          (\<forall>w. external w = external ?w5 \<longrightarrow>
             (clock w - t < resetTimeout (options (external w)) \<longrightarrow>
                (\<forall>g :: 'b operation. execute g w = (Inl (Error ''Circuit breaker is OPEN''), w)))
           \<and> (clock w - t \<ge> resetTimeout (options (external w)) \<longrightarrow>
                (\<forall>g :: 'b operation. execute g w =
                       (case g (half_open w) of
                          (Inr r, w2) \<Rightarrow> (Inr r, onSuccess w2)
                        | (Inl e, w2) \<Rightarrow> (Inl e, onFailure w2))
                   \<and> (leaves_breaker g \<and> resolves g \<longrightarrow>
                        state (external (snd (execute g w))) = CLOSED
                      \<and> failures (external (snd (execute g w))) = 0))))"
    by blast
qed

lemma onFailure_inv:
  "breaker_inv (external w) \<Longrightarrow> breaker_inv (external (onFailure w))"
  by (auto simp: breaker_inv_def external_onFailure)

lemma options_onFailure: "options (external (onFailure w)) = options (external w)"
  by (simp add: external_onFailure)

lemma options_onSuccess: "options (external (onSuccess w)) = options (external w)"
  by (simp add: external_onSuccess)

lemma onSuccess_inv: "breaker_inv (external (onSuccess w))"
  by (simp add: breaker_inv_def external_onSuccess)

lemma guarded_preserves:
  assumes "f \<in> guarded"
  shows "options (external (snd (f w))) = options (external w)
     \<and> (breaker_inv (external w) \<longrightarrow> breaker_inv (external (snd (f w))))"
  using assms
proof (induction arbitrary: w rule: guarded.induct)
  case (leaf f)
  then show ?case by (simp add: leaves_breaker_def)
next
  case (nested f w)
  show ?case
  proof (cases "state (external w) = OPEN \<and> \<not> shouldAttemptReset w")
    case True
    then show ?thesis by (simp add: execute_def)
  next
    case False
    define w1 where "w1 = (if state (external w) = OPEN then half_open w else w)"
    obtain r w2 where fw: "f w1 = (r, w2)" by (cases "f w1")
    have opts1: "options (external w1) = options (external w)"
      by (simp add: w1_def half_open_def)
    have inv1: "breaker_inv (external w) \<longrightarrow> breaker_inv (external w1)"
      by (simp add: w1_def half_open_def breaker_inv_def)
    from nested.IH [of w1] fw
    have opts2: "options (external w2) = options (external w1)"
      and inv2: "breaker_inv (external w1) \<longrightarrow> breaker_inv (external w2)" by simp_all
    have ex: "execute f w = (case r of Inr v \<Rightarrow> (Inr v, onSuccess w2) | Inl e \<Rightarrow> (Inl e, onFailure w2))"
      using False fw by (auto simp: execute_def w1_def half_open_def split: sum.splits)
    show ?thesis
      using opts1 opts2 inv1 inv2
      by (cases r) (simp_all add: ex options_onFailure options_onSuccess onFailure_inv onSuccess_inv)
  qed
next
  case (bind f k w)
  obtain r w' where fw: "f w = (r, w')" by (cases "f w")
  from bind.IH(1) [of w] fw bind.IH(2) [of r w'] show ?case by simp
qed

text \<open>
  Claim C4. In every reachable state, \<open>state = OPEN\<close> implies
  \<open>failures \<ge> failureThreshold\<close>: the state is set to OPEN only where the count has just
  been compared with the threshold, and the count goes down only where the state is set to
  CLOSED.
\<close>

theorem open_implies_threshold_reached:
  assumes "reachable w" and "state (external w) = OPEN"
  shows "failureThreshold (options (external w)) \<le> failures (external w)"
proof -
  from assms(1) have "breaker_inv (external w)"
  proof (induction rule: reachable.induct)
    case (start w opts)
    then show ?case by (simp add: breaker_inv_def new_CircuitBreaker_def)
  next
    case (call w f)
    have "execute f \<in> guarded" using call.hyps(2) by (rule guarded.nested)
    from guarded_preserves [OF this, of w] call.IH show ?case by simp
  next
    case (idle w w')
    then show ?case by simp
  next
    case (gate w)
    show ?case by (simp add: breaker_inv_def half_open_def)
  next
    case (settled w)
    show ?case by (rule onSuccess_inv)
  next
    case (failed w)
    then show ?case by (intro onFailure_inv)
  qed
  with assms(2) show ?thesis by (simp add: breaker_inv_def)
qed

text \<open>
  Claim C3, as the code has it. Only the state OPEN gates admission. \<open>execute\<close> rejects a
  call, without running its operation, when the state is OPEN and \<open>resetTimeout\<close> has not
  elapsed since the last failure; when it has elapsed, the state becomes HALF_OPEN and the
  operation runs. A call that arrives while the state is HALF_OPEN is admitted and its
  operation runs, by the same equation as in CLOSED. The class keeps no count of calls in
  flight: when the operation of a call admitted in HALF_OPEN calls \<open>execute\<close> itself, that
  second call is admitted too, and both settle the breaker.
\<close>

theorem execute_gates_on_open_only:
  "(state (external w) = OPEN \<and> \<not> shouldAttemptReset w \<longrightarrow>
      execute f w = (Inl (Error ''Circuit breaker is OPEN''), w))
   \<and> (state (external w) = OPEN \<and> shouldAttemptReset w \<longrightarrow>
      execute f w =
        (case f (half_open w) of
           (Inr r, w2) \<Rightarrow> (Inr r, onSuccess w2) | (Inl e, w2) \<Rightarrow> (Inl e, onFailure w2)))
   \<and> (state (external w) = HALF_OPEN \<or> state (external w) = CLOSED \<longrightarrow>
      execute f w =
        (case f w of
           (Inr r, w2) \<Rightarrow> (Inr r, onSuccess w2) | (Inl e, w2) \<Rightarrow> (Inl e, onFailure w2)))
   \<and> (state (external w) = HALF_OPEN \<longrightarrow>
      execute (execute f) w =
        (case f w of
           (Inr r, w2) \<Rightarrow> (Inr r, onSuccess (onSuccess w2))
         | (Inl e, w2) \<Rightarrow> (Inl e, onFailure (onFailure w2))))"
proof (intro conjI impI)
  assume "state (external w) = OPEN \<and> \<not> shouldAttemptReset w"
  then show "execute f w = (Inl (Error ''Circuit breaker is OPEN''), w)"
    by (simp add: execute_rejected)
next
  assume "state (external w) = OPEN \<and> shouldAttemptReset w"
  then show "execute f w =
        (case f (half_open w) of
           (Inr r, w2) \<Rightarrow> (Inr r, onSuccess w2) | (Inl e, w2) \<Rightarrow> (Inl e, onFailure w2))"
    by (simp add: execute_trial)
next
  assume "state (external w) = HALF_OPEN \<or> state (external w) = CLOSED"
  then have "state (external w) \<noteq> OPEN" by auto
  then show "execute f w =
        (case f w of
           (Inr r, w2) \<Rightarrow> (Inr r, onSuccess w2) | (Inl e, w2) \<Rightarrow> (Inl e, onFailure w2))"
    by (rule execute_not_open)
next
  assume "state (external w) = HALF_OPEN"
  then have admitted: "state (external w) \<noteq> OPEN" by simp
  show "execute (execute f) w =
        (case f w of
           (Inr r, w2) \<Rightarrow> (Inr r, onSuccess (onSuccess w2))
         | (Inl e, w2) \<Rightarrow> (Inl e, onFailure (onFailure w2)))"
    unfolding execute_not_open [OF admitted]
    by (simp split: prod.splits sum.splits)
qed

lemmas breaker_eval =
  execute_def shouldAttemptReset_def onFailure_def onSuccess_def Let_def
  circuitBreakers_external_def new_CircuitBreaker_def fresh_world_def
  failing_tick_def succeeding_tick_def observe_state_def five_failing_def half_open_def

text \<open>
  Claim C2 on \<open>circuitBreakers.external\<close>: five rejected calls one millisecond each, so the
  last failure is at time 5; a call at 60004 is refused, a call at 60005 runs once (the clock
  moves by the one millisecond of a single run) and closes the breaker.
\<close>

theorem breaker_five_failures_then_trial_witness:
  "failureThreshold (options (external fresh_world)) = 5
   \<and> state (external fresh_world) = CLOSED
   \<and> failures (external fresh_world) = 0
   \<and> length five_failing = 5
   \<and> leaves_breaker failing_tick \<and> rejects failing_tick
   \<and> leaves_breaker succeeding_tick \<and> resolves succeeding_tick
   \<and> state (external (execute_all (take 4 five_failing) fresh_world)) = CLOSED
   \<and> state (external (execute_all five_failing fresh_world)) = OPEN
   \<and> lastFailureTime (external (execute_all five_failing fresh_world)) = Some 5
   \<and> execute succeeding_tick ((execute_all five_failing fresh_world)\<lparr>clock := 60004\<rparr>)
       = (Inl (Error ''Circuit breaker is OPEN''), (execute_all five_failing fresh_world)\<lparr>clock := 60004\<rparr>)
   \<and> fst (execute succeeding_tick ((execute_all five_failing fresh_world)\<lparr>clock := 60005\<rparr>)) = Inr JNull
   \<and> clock (snd (execute succeeding_tick ((execute_all five_failing fresh_world)\<lparr>clock := 60005\<rparr>))) = 60006
   \<and> state (external (snd (execute succeeding_tick ((execute_all five_failing fresh_world)\<lparr>clock := 60005\<rparr>)))) = CLOSED
   \<and> failures (external (snd (execute succeeding_tick ((execute_all five_failing fresh_world)\<lparr>clock := 60005\<rparr>)))) = 0"
proof -
  let ?w5 = "execute_all five_failing fresh_world"
  define P where "P t \<longleftrightarrow>
          (\<forall>w. external w = external ?w5 \<longrightarrow>
             (clock w - t < resetTimeout (options (external w)) \<longrightarrow>
                (\<forall>g :: json operation. execute g w = (Inl (Error ''Circuit breaker is OPEN''), w)))
           \<and> (clock w - t \<ge> resetTimeout (options (external w)) \<longrightarrow>
                (\<forall>g :: json operation. execute g w =
                       (case g (half_open w) of
                          (Inr r, w2) \<Rightarrow> (Inr r, onSuccess w2)
                        | (Inl e, w2) \<Rightarrow> (Inl e, onFailure w2))
                   \<and> (leaves_breaker g \<and> resolves g \<longrightarrow>
                        state (external (snd (execute g w))) = CLOSED
                      \<and> failures (external (snd (execute g w))) = 0))))" for t
  have h1: "failureThreshold (options (external fresh_world)) = 5"
    and h2: "state (external fresh_world) = CLOSED"
    and h3: "failures (external fresh_world) = 0"
    by (simp_all add: breaker_eval)
  have h4: "length five_failing = 5" by (simp add: five_failing_def)
  have ft: "leaves_breaker failing_tick" "rejects failing_tick"
    by (simp_all add: leaves_breaker_def rejects_def failing_tick_def)
  have st: "leaves_breaker succeeding_tick" "resolves succeeding_tick"
    by (simp_all add: leaves_breaker_def resolves_def succeeding_tick_def)
  have h5: "\<forall>f\<in>set five_failing. leaves_breaker f \<and> rejects f"
    using ft by (simp add: five_failing_def)
  note main = breaker_five_failures_then_trial [OF h1 h2 h3 h4 h5]
  have ext5: "external ?w5 =
      \<lparr>failures = 5, lastFailureTime = Some 5, state = OPEN,
       options = \<lparr>failureThreshold = 5, resetTimeout = 60000, monitoringPeriod = 10000\<rparr>\<rparr>"
    by (simp add: breaker_eval)
  have four: "state (external (execute_all (take 4 five_failing) fresh_world)) = CLOSED"
    using main [THEN conjunct1, rule_format, of 4] by simp
  have opened: "state (external ?w5) = OPEN"
    using main [THEN conjunct2, THEN conjunct1] .
  have "\<exists>t. lastFailureTime (external ?w5) = Some t \<and> P t"
    unfolding P_def using main [where 'b = json, THEN conjunct2, THEN conjunct2] .
  then have P5: "P 5" by (auto simp: ext5)
  let ?we = "?w5\<lparr>clock := 60004\<rparr>" and ?wl = "?w5\<lparr>clock := 60005\<rparr>"
  have e1: "external ?we = external ?w5" by simp
  have e2: "clock ?we - 5 < resetTimeout (options (external ?we))" by (simp add: ext5)
  have l1: "external ?wl = external ?w5" by simp
  have l2: "resetTimeout (options (external ?wl)) \<le> clock ?wl - 5" by (simp add: ext5)
  from P5 e1 e2 have "\<forall>g :: json operation. execute g ?we = (Inl (Error ''Circuit breaker is OPEN''), ?we)"
    unfolding P_def by blast
  then have early: "execute succeeding_tick ?we = (Inl (Error ''Circuit breaker is OPEN''), ?we)"
    by (rule spec)
  from P5 l1 l2 have "\<forall>g :: json operation. execute g ?wl =
                       (case g (half_open ?wl) of
                          (Inr r, w2) \<Rightarrow> (Inr r, onSuccess w2)
                        | (Inl e, w2) \<Rightarrow> (Inl e, onFailure w2))
                   \<and> (leaves_breaker g \<and> resolves g \<longrightarrow>
                        state (external (snd (execute g ?wl))) = CLOSED
                      \<and> failures (external (snd (execute g ?wl))) = 0)"
    unfolding P_def by blast
  then have trial: "execute succeeding_tick ?wl =
                       (case succeeding_tick (half_open ?wl) of
                          (Inr r, w2) \<Rightarrow> (Inr r, onSuccess w2)
                        | (Inl e, w2) \<Rightarrow> (Inl e, onFailure w2))
                   \<and> (leaves_breaker succeeding_tick \<and> resolves succeeding_tick \<longrightarrow>
                        state (external (snd (execute succeeding_tick ?wl))) = CLOSED
                      \<and> failures (external (snd (execute succeeding_tick ?wl))) = 0)"
    by (rule spec)
  from trial have late: "execute succeeding_tick ?wl =
                       (case succeeding_tick (half_open ?wl) of
                          (Inr r, w2) \<Rightarrow> (Inr r, onSuccess w2)
                        | (Inl e, w2) \<Rightarrow> (Inl e, onFailure w2))"
    by (rule conjunct1)
  from trial st have closed: "state (external (snd (execute succeeding_tick ?wl))) = CLOSED"
       "failures (external (snd (execute succeeding_tick ?wl))) = 0"
    by blast+
  have once: "fst (execute succeeding_tick (?w5\<lparr>clock := 60005\<rparr>)) = Inr JNull"
    "clock (snd (execute succeeding_tick (?w5\<lparr>clock := 60005\<rparr>))) = 60006"
    by (simp_all add: late succeeding_tick_def half_open_def onSuccess_def)
  show ?thesis
    using h1 h2 h3 h4 ft st four opened ext5 early closed once by simp
qed

text \<open>
  The state after five failing calls is reachable, and so is the HALF_OPEN state that the
  gate of \<open>execute\<close> makes of it once the clock reads 60005.
\<close>

lemma tripped_world_reachable: "reachable tripped_world"
proof -
  have g: "failing_tick \<in> guarded"
    by (rule guarded.leaf) (simp add: leaves_breaker_def failing_tick_def)
  have r0: "reachable fresh_world"
    by (rule reachable.start [where opts = "\<lparr>failureThreshold = 5, resetTimeout = 60000, monitoringPeriod = 10000\<rparr>"])
       (simp add: fresh_world_def circuitBreakers_external_def)
  show ?thesis
    unfolding tripped_world_def five_failing_def execute_all.simps
    by (intro reachable.call r0 g)
qed

lemma trial_world_reachable: "reachable (half_open (tripped_world\<lparr>clock := 60005\<rparr>))"
proof (rule reachable.gate)
  show "reachable (tripped_world\<lparr>clock := 60005\<rparr>)"
    using tripped_world_reachable by (rule reachable.idle) simp
  show "state (external (tripped_world\<lparr>clock := 60005\<rparr>)) = OPEN"
    by (simp add: tripped_world_def breaker_eval)
  show "shouldAttemptReset (tripped_world\<lparr>clock := 60005\<rparr>)"
    by (simp add: tripped_world_def breaker_eval)
qed

text \<open>
  Claim C3, amended, on \<open>circuitBreakers.external\<close> after five failing calls, the last
  failure at time 5. In the reachable HALF_OPEN state a call is admitted and closes the
  breaker, and a call nested in another is admitted as well; at 60004 a call is rejected,
  at 60005 it runs in HALF_OPEN; at start-up, in CLOSED, it runs.
\<close>

theorem execute_gates_on_open_only_witness:
  "reachable (half_open (tripped_world\<lparr>clock := 60005\<rparr>))
   \<and> state (external (half_open (tripped_world\<lparr>clock := 60005\<rparr>))) = HALF_OPEN
   \<and> fst (execute succeeding_tick (half_open (tripped_world\<lparr>clock := 60005\<rparr>))) = Inr JNull
   \<and> clock (snd (execute succeeding_tick (half_open (tripped_world\<lparr>clock := 60005\<rparr>)))) = 60006
   \<and> state (external (snd (execute succeeding_tick (half_open (tripped_world\<lparr>clock := 60005\<rparr>))))) = CLOSED
   \<and> fst (execute (execute observe_state) (half_open (tripped_world\<lparr>clock := 60005\<rparr>)))
       = Inr HALF_OPEN
   \<and> state (external (tripped_world\<lparr>clock := 60004\<rparr>)) = OPEN
   \<and> \<not> shouldAttemptReset (tripped_world\<lparr>clock := 60004\<rparr>)
   \<and> execute succeeding_tick (tripped_world\<lparr>clock := 60004\<rparr>)
       = (Inl (Error ''Circuit breaker is OPEN''), tripped_world\<lparr>clock := 60004\<rparr>)
   \<and> state (external (tripped_world\<lparr>clock := 60005\<rparr>)) = OPEN
   \<and> shouldAttemptReset (tripped_world\<lparr>clock := 60005\<rparr>)
   \<and> fst (execute observe_state (tripped_world\<lparr>clock := 60005\<rparr>)) = Inr HALF_OPEN
   \<and> state (external fresh_world) = CLOSED
   \<and> execute succeeding_tick fresh_world = (Inr JNull, fresh_world\<lparr>clock := 1\<rparr>)"
proof -
  let ?early = "tripped_world\<lparr>clock := 60004\<rparr>"
  let ?late = "tripped_world\<lparr>clock := 60005\<rparr>"
  let ?trial = "half_open ?late"
  have r: "reachable ?trial" by (rule trial_world_reachable)
  have h: "state (external ?trial) = HALF_OPEN" by (simp add: half_open_def)
  have e: "state (external ?early) = OPEN" "\<not> shouldAttemptReset ?early"
    by (simp_all add: tripped_world_def breaker_eval)
  have l: "state (external ?late) = OPEN" "shouldAttemptReset ?late"
    by (simp_all add: tripped_world_def breaker_eval)
  have c: "state (external fresh_world) = CLOSED" by (simp add: breaker_eval)
  note a = execute_gates_on_open_only [of ?trial succeeding_tick]
  from a h have a1: "execute succeeding_tick ?trial =
        (case succeeding_tick ?trial of
           (Inr r, w2) \<Rightarrow> (Inr r, onSuccess w2) | (Inl e, w2) \<Rightarrow> (Inl e, onFailure w2))"
    by blast
  have t1: "fst (execute succeeding_tick ?trial) = Inr JNull"
    "clock (snd (execute succeeding_tick ?trial)) = 60006"
    "state (external (snd (execute succeeding_tick ?trial))) = CLOSED"
    unfolding a1 by (simp_all add: succeeding_tick_def half_open_def onSuccess_def)
  note b = execute_gates_on_open_only [of ?trial observe_state]
  from b h have b1: "execute (execute observe_state) ?trial =
        (case observe_state ?trial of
           (Inr r, w2) \<Rightarrow> (Inr r, onSuccess (onSuccess w2))
         | (Inl e, w2) \<Rightarrow> (Inl e, onFailure (onFailure w2)))"
    by blast
  have t2: "fst (execute (execute observe_state) ?trial) = Inr HALF_OPEN"
    unfolding b1 by (simp add: observe_state_def half_open_def)
  from execute_gates_on_open_only [of ?early succeeding_tick] e
  have t3: "execute succeeding_tick ?early = (Inl (Error ''Circuit breaker is OPEN''), ?early)"
    by blast
  from execute_gates_on_open_only [of ?late observe_state] l
  have d1: "execute observe_state ?late =
        (case observe_state (half_open ?late) of
           (Inr r, w2) \<Rightarrow> (Inr r, onSuccess w2) | (Inl e, w2) \<Rightarrow> (Inl e, onFailure w2))"
    by blast
  have t4: "fst (execute observe_state ?late) = Inr HALF_OPEN"
    unfolding d1 by (simp add: observe_state_def half_open_def)
  from execute_gates_on_open_only [of fresh_world succeeding_tick] c
  have f1: "execute succeeding_tick fresh_world =
        (case succeeding_tick fresh_world of
           (Inr r, w2) \<Rightarrow> (Inr r, onSuccess w2) | (Inl e, w2) \<Rightarrow> (Inl e, onFailure w2))"
    by blast
  have t5: "execute succeeding_tick fresh_world = (Inr JNull, fresh_world\<lparr>clock := 1\<rparr>)"
    unfolding f1 by (simp add: breaker_eval)
  show ?thesis
    by (intro conjI) (rule r h t1 t2 e l t3 t4 c t5)+
qed

text \<open>
  Claim C3 as stated fails. The breaker is OPEN and the cooldown is over. A call that
  arrives in HALF_OPEN is admitted and its operation sees HALF_OPEN; and when the trial
  call's own operation calls \<open>execute\<close> again (as the tool path of the dispatcher does),
  that second call is admitted while the trial is still in flight.
\<close>

theorem half_open_second_call_admitted:
  "state (external (half_open ((execute_all five_failing fresh_world)\<lparr>clock := 60005\<rparr>))) = HALF_OPEN
   \<and> fst (execute observe_state (half_open ((execute_all five_failing fresh_world)\<lparr>clock := 60005\<rparr>)))
       = Inr HALF_OPEN
   \<and> fst (execute (execute observe_state) ((execute_all five_failing fresh_world)\<lparr>clock := 60005\<rparr>))
       = Inr HALF_OPEN"
  by (simp add: breaker_eval)

text \<open>
  Claim C4 at the state after five failing calls, which is reachable and OPEN.
\<close>

theorem open_implies_threshold_reached_witness:
  "reachable (execute_all five_failing fresh_world)
   \<and> state (external (execute_all five_failing fresh_world)) = OPEN
   \<and> failureThreshold (options (external (execute_all five_failing fresh_world)))
       \<le> failures (external (execute_all five_failing fresh_world))"
proof -
  have g: "failing_tick \<in> guarded"
    by (rule guarded.leaf) (simp add: leaves_breaker_def failing_tick_def)
  have r0: "reachable fresh_world"
    by (rule reachable.start [where opts = "\<lparr>failureThreshold = 5, resetTimeout = 60000, monitoringPeriod = 10000\<rparr>"])
       (simp add: fresh_world_def circuitBreakers_external_def)
  have r5: "reachable (execute_all five_failing fresh_world)"
    unfolding five_failing_def execute_all.simps
    by (intro reachable.call r0 g)
  have o: "state (external (execute_all five_failing fresh_world)) = OPEN"
    by (simp add: breaker_eval)
  from open_implies_threshold_reached [OF r5 o] r5 o show ?thesis by simp
qed

section \<open>Properties of the cache\<close>

lemma map_of_Cache_set:
  "map_of (Cache_set k v ttl_arg t c) k =
     Some \<lparr>data = v, timestamp = t,
           ttl = (case ttl_arg of None \<Rightarrow> defaultTTL | Some x \<Rightarrow> if x = 0 then defaultTTL else x)\<rparr>"
  by (simp add: Cache_set_def Let_def update_conv)

lemma map_of_delete_self: "map_of (AList.delete k c) k = None"
  by (simp add: delete_conv)

lemma length_delete_present:
  "distinct (map fst c) \<Longrightarrow> map_of c k = Some item \<Longrightarrow> length (AList.delete k c) = length c - 1"
proof (induction c)
  case Nil
  then show ?case by simp
next
  case (Cons p c)
  obtain k' i where p: "p = (k', i)" by (cases p)
  show ?case
  proof (cases "k' = k")
    case True
    with Cons.prems p have "k \<notin> fst ` set c" by auto
    then have "AList.delete k c = c" by (simp add: delete_id)
    with True p show ?thesis by simp
  next
    case False
    with Cons.prems p have "map_of c k = Some item" "distinct (map fst c)" by auto
    with Cons.IH have "length (AList.delete k c) = length c - 1" by simp
    moreover from \<open>map_of c k = Some item\<close> have "c \<noteq> []" by auto
    ultimately show ?thesis using False p by (cases c) auto
  qed
qed

text \<open>
  Claim C5, as the code has it. For a positive \<open>ttl\<close>: right after \<open>set\<close> (at the storing
  time \<open>t\<close>) and at every time up to \<open>t + ttl\<close>, \<open>get\<close> returns the stored value and leaves
  the map alone; at every later time it returns nothing and removes the entry. A \<open>ttl\<close> that
  is left out or is 0 behaves as the default of five minutes.
\<close>

theorem cache_set_then_get:
  assumes "0 < ms"
  shows "Cache_get k t (Cache_set k v (Some ms) t c) = (Some v, Cache_set k v (Some ms) t c)
     \<and> (\<forall>now. now \<le> t + ms \<longrightarrow>
           Cache_get k now (Cache_set k v (Some ms) t c) = (Some v, Cache_set k v (Some ms) t c))
     \<and> (\<forall>now. now > t + ms \<longrightarrow>
           Cache_get k now (Cache_set k v (Some ms) t c)
             = (None, AList.delete k (Cache_set k v (Some ms) t c))
         \<and> map_of (snd (Cache_get k now (Cache_set k v (Some ms) t c))) k = None)
     \<and> (\<forall>d\<in>{None, Some 0}. \<forall>now.
           (now \<le> t + defaultTTL \<longrightarrow>
              Cache_get k now (Cache_set k v d t c) = (Some v, Cache_set k v d t c))
         \<and> (now > t + defaultTTL \<longrightarrow>
              Cache_get k now (Cache_set k v d t c) = (None, AList.delete k (Cache_set k v d t c))))"
  using assms by (auto simp: Cache_get_def map_of_Cache_set map_of_delete_self)

text \<open>
  Claim C5, amended, at \<open>ttl = 1000\<close> on an empty cache.
\<close>

theorem cache_set_then_get_witness:
  "(0::int) < 1000
   \<and> Cache_get ''k'' 0 (Cache_set ''k'' (JStr ''v'') (Some 1000) 0 [])
       = (Some (JStr ''v''), [(''k'', \<lparr>data = JStr ''v'', timestamp = 0, ttl = 1000\<rparr>)])
   \<and> Cache_get ''k'' 1000 (Cache_set ''k'' (JStr ''v'') (Some 1000) 0 [])
       = (Some (JStr ''v''), [(''k'', \<lparr>data = JStr ''v'', timestamp = 0, ttl = 1000\<rparr>)])
   \<and> Cache_get ''k'' 1001 (Cache_set ''k'' (JStr ''v'') (Some 1000) 0 []) = (None, [])
   \<and> fst (Cache_get ''k'' 300000 (Cache_set ''k'' (JStr ''v'') (Some 0) 0 [])) = Some (JStr ''v'')
   \<and> Cache_get ''k'' 300001 (Cache_set ''k'' (JStr ''v'') None 0 []) = (None, [])"
proof -
  have h: "(0::int) < 1000" by simp
  note main = cache_set_then_get [OF h, of "''k''" 0 "JStr ''v''" "[]"]
  have set1: "Cache_set ''k'' (JStr ''v'') (Some 1000) 0 []
       = [(''k'', \<lparr>data = JStr ''v'', timestamp = 0, ttl = 1000\<rparr>)]"
    by (simp add: Cache_set_def)
  from main have a: "Cache_get ''k'' 0 (Cache_set ''k'' (JStr ''v'') (Some 1000) 0 [])
       = (Some (JStr ''v''), Cache_set ''k'' (JStr ''v'') (Some 1000) 0 [])"
    by (rule conjunct1)
  from main have b: "Cache_get ''k'' 1000 (Cache_set ''k'' (JStr ''v'') (Some 1000) 0 [])
       = (Some (JStr ''v''), Cache_set ''k'' (JStr ''v'') (Some 1000) 0 [])"
    by simp
  from main have c: "Cache_get ''k'' 1001 (Cache_set ''k'' (JStr ''v'') (Some 1000) 0 [])
       = (None, AList.delete ''k'' (Cache_set ''k'' (JStr ''v'') (Some 1000) 0 []))"
    by simp
  from main have d: "fst (Cache_get ''k'' 300000 (Cache_set ''k'' (JStr ''v'') (Some 0) 0 [])) = Some (JStr ''v'')"
    by (simp add: defaultTTL_def)
  from main have e: "Cache_get ''k'' 300001 (Cache_set ''k'' (JStr ''v'') None 0 [])
       = (None, AList.delete ''k'' (Cache_set ''k'' (JStr ''v'') None 0 []))"
    by (simp add: defaultTTL_def)
  show ?thesis using h a b c d e by (simp add: Cache_set_def)
qed

text \<open>
  Claim C5 as stated fails at \<open>ttl = 0\<close>: stored at time 0, the entry is still returned at
  time 1, past \<open>storedAt + ttl\<close>.
\<close>

theorem cache_zero_ttl_survives:
  "(1::int) > 0 + 0
   \<and> fst (Cache_get ''k'' 1 (Cache_set ''k'' (JStr ''v'') (Some 0) 0 [])) = Some (JStr ''v'')"
  by (simp add: Cache_get_def Cache_set_def defaultTTL_def)

text \<open>
  Claim C6. \<open>size\<close> is the number of entries held, expired and live alike (it takes no
  time and returns no map, so it neither tests expiry nor removes anything). An expired entry
  is counted until \<open>get\<close> on its key removes it, which lowers the size by one; reading
  any other key leaves it in place.
\<close>

theorem cache_size_counts_expired:
  assumes "distinct (map fst c)" and "map_of c k = Some item" and "expired now item"
  shows "Cache_size c = length (filter (\<lambda>(k', i). expired now i) c)
                       + length (filter (\<lambda>(k', i). \<not> expired now i) c)
     \<and> (k, item) \<in> set (filter (\<lambda>(k', i). expired now i) c)
     \<and> Cache_get k now c = (None, AList.delete k c)
     \<and> Cache_size (snd (Cache_get k now c)) = Cache_size c - 1
     \<and> 0 < Cache_size c
     \<and> (\<forall>k' now'. k' \<noteq> k \<longrightarrow> map_of (snd (Cache_get k' now' c)) k = Some item)"
proof (intro conjI allI impI)
  show "Cache_size c = length (filter (\<lambda>(k', i). expired now i) c)
                       + length (filter (\<lambda>(k', i). \<not> expired now i) c)"
    unfolding Cache_size_def by (induction c) auto
  show "(k, item) \<in> set (filter (\<lambda>(k', i). expired now i) c)"
    using assms by (auto dest: map_of_SomeD)
  show get: "Cache_get k now c = (None, AList.delete k c)"
    using assms by (simp add: Cache_get_def expired_def)
  show "Cache_size (snd (Cache_get k now c)) = Cache_size c - 1"
    using assms by (simp add: get Cache_size_def length_delete_present)
  show "0 < Cache_size c"
    using assms(2) by (cases c) (auto simp: Cache_size_def)
next
  fix k' :: string and now' :: int
  assume "k' \<noteq> k"
  then show "map_of (snd (Cache_get k' now' c)) k = Some item"
    using assms(2) by (simp add: Cache_get_def delete_conv split: option.splits)
qed

text \<open>
  Claim C6 at an entry stored at time 0 for 10 ms and read at time 100.
\<close>

theorem cache_size_counts_expired_witness:
  "distinct (map fst (Cache_set ''k'' (JStr ''v'') (Some 10) 0 []))
   \<and> map_of (Cache_set ''k'' (JStr ''v'') (Some 10) 0 []) ''k''
        = Some \<lparr>data = JStr ''v'', timestamp = 0, ttl = 10\<rparr>
   \<and> expired 100 \<lparr>data = JStr ''v'', timestamp = 0, ttl = 10\<rparr>
   \<and> Cache_size (Cache_set ''k'' (JStr ''v'') (Some 10) 0 []) = 1
   \<and> Cache_size (snd (Cache_get ''k'' 100 (Cache_set ''k'' (JStr ''v'') (Some 10) 0 []))) = 0"
proof -
  let ?c = "Cache_set ''k'' (JStr ''v'') (Some 10) 0 []"
  let ?i = "\<lparr>data = JStr ''v'', timestamp = 0, ttl = 10\<rparr>"
  have h1: "distinct (map fst ?c)" by (simp add: Cache_set_def)
  have h2: "map_of ?c ''k'' = Some ?i" by (simp add: Cache_set_def)
  have h3: "expired 100 ?i" by (simp add: expired_def)
  have sz: "Cache_size ?c = 1" by (simp add: Cache_set_def Cache_size_def)
  have "Cache_size (snd (Cache_get ''k'' 100 ?c)) = Cache_size ?c - 1"
    using cache_size_counts_expired [OF h1 h2 h3] by blast
  with h1 h2 h3 sz show ?thesis by simp
qed

section \<open>Properties of the search\<close>






















section \<open>Properties of the dispatcher\<close>

lemma schema_call_tool:
  "lookup_property methodSchemas ''call_tool''
     = Own [(''name'', stringSchema), (''arguments'', ZOptional ZAny)]"
  by (simp add: lookup_property_def methodSchemas_def)

lemma validate_call_tool:
  assumes "n \<noteq> []" "length n \<le> 1000"
  shows "validateAndSanitizeParams ''call_tool'' (JObj [(''name'', JStr n), (''arguments'', args)])
     = Inr (JObj ((''name'', JStr n) # (if args = JUndefined then [] else [(''arguments'', args)])))"
  using assms
  by (auto simp: validateAndSanitizeParams_def schema_call_tool or_empty_object_def
        z_object_parse_def stringSchema_def Let_def)

lemma tool_lookup:
  "lookup_property (toolHandlers st) ''get_anime_component'' = Own handleGetAnimeComponent"
  "lookup_property (toolHandlers st) ''search_anime_examples'' = Own handleSearchAnimeExamples"
  "lookup_property (toolHandlers st) ''get_anime_docs'' = Own (handleGetAnimeDocs (documentation st))"
  "lookup_property (toolHandlers st) ''constructor'' = Inherited ''constructor''"
  "lookup_property (toolHandlers st) ''no_such_tool'' = Absent"
  by (simp_all add: lookup_property_def toolHandlers_def Object_prototype_def)

lemma handlers_leave_breaker:
  "leaves_breaker (handleGetAnimeComponent params)"
  "leaves_breaker (handleSearchAnimeExamples params)"
  "leaves_breaker (handleGetAnimeDocs body params)"
  "leaves_breaker (with_cache f)"
  "leaves_breaker (pure_handler r)"
  by (auto simp: leaves_breaker_def handleGetAnimeComponent_def handleSearchAnimeExamples_def
        handleGetAnimeDocs_def with_cache_def pure_handler_def Let_def
      split: json.splits prod.splits)

text \<open>
  No tool handler touches the breaker.
\<close>

lemma tool_handlers_leave_breaker:
  assumes "lookup_property (toolHandlers st) n = Own handler"
  shows "leaves_breaker (handler params)"
proof -
  from assms have "map_of (toolHandlers st) n = Some handler"
    by (auto simp: lookup_property_def split: option.splits if_splits)
  then have "(n, handler) \<in> set (toolHandlers st)" by (rule map_of_SomeD)
  then show ?thesis
    using handlers_leave_breaker by (auto simp: toolHandlers_def)
qed

lemma lookup_empty_name: "lookup_property (toolHandlers st) [] = Absent"
  by (simp add: lookup_property_def toolHandlers_def Object_prototype_def)

lemma tool_operation_leaves_breaker:
  "tool_operation st n args = Some op \<Longrightarrow> leaves_breaker op"
  by (auto simp: tool_operation_def handlers_leave_breaker tool_handlers_leave_breaker
      split: property.splits)

lemma call_tool_found:
  assumes "get_prop validated ''name'' = JStr n" and "tool_operation st n (get_prop validated ''arguments'') = Some op"
  shows "call_tool st validated w = execute op w"
proof -
  from assms(2) have "lookup_property (toolHandlers st) n \<noteq> Absent"
    by (auto simp: tool_operation_def)
  then have "n \<noteq> []" using lookup_empty_name by auto
  then show ?thesis
    using assms by (auto simp: call_tool_def tool_operation_def Let_def split: property.splits)
qed

text \<open>
  The breaker wrapped around itself, as on the tool path: once the outer call is admitted
  the inner one is too, and the outcome of the operation is counted by both.
\<close>

lemma nested_execute:
  assumes leaf: "leaves_breaker op"
    and admitted: "\<not> (state (external w) = OPEN \<and> \<not> shouldAttemptReset w)"
  shows "execute (execute op) w =
     (case op (if state (external w) = OPEN then half_open w else w) of
        (Inr r, w2) \<Rightarrow> (Inr r, onSuccess (onSuccess w2))
      | (Inl e, w2) \<Rightarrow> (Inl e, onFailure (onFailure w2)))"
proof -
  let ?w1 = "if state (external w) = OPEN then half_open w else w"
  have s1: "state (external ?w1) \<noteq> OPEN" by (simp add: half_open_def)
  have outer: "execute (execute op) w =
     (case execute op ?w1 of
        (Inr r, w2) \<Rightarrow> (Inr r, onSuccess w2)
      | (Inl e, w2) \<Rightarrow> (Inl e, onFailure w2))"
    using admitted by (auto simp: execute_def [of "execute op"] half_open_def)
  show ?thesis
    unfolding outer execute_not_open [OF s1]
    by (auto split: prod.splits sum.splits)
qed

lemma failures_after_two_failures:
  "failures (external (onFailure (onFailure w2))) = failures (external w2) + 2"
  by (simp add: external_onFailure)

text \<open>
  A request that names no handler raises in the outer call only: the handler of
  \<open>call_tool\<close> throws before it reaches its own \<open>execute\<close>. A request that fails
  validation does not reach the breaker (\<open>validation_failure_short_circuits\<close>).
\<close>

lemma unknown_tool_counts_once:
  assumes n: "n \<noteq> []" "length n \<le> 1000"
    and absent: "lookup_property (toolHandlers st) n = Absent"
    and admitted: "\<not> (state (external w) = OPEN \<and> \<not> shouldAttemptReset w)"
  shows "setupHandlers st (tool_call n args) w =
     (Inl (Error (''Tool not found: '' @ n)),
      onFailure (if state (external w) = OPEN then half_open w else w))"
  unfolding tool_call_def setupHandlers.simps handleRequest_def validate_call_tool [OF n]
  using n(1) absent admitted
  by (auto simp: execute_def call_tool_def half_open_def Let_def)

text \<open>
  Claim C9, as the code has it. A failing \<open>call_tool\<close> request whose tool handler was
  invoked adds exactly 2 to the failure count of \<open>circuitBreakers.external\<close>: \<open>onFailure\<close>
  runs in the inner \<open>execute\<close> of the \<open>call_tool\<close> handler and again in the outer one of
  \<open>handleRequest\<close>. With the threshold of 5, starting CLOSED with no failures counted, the
  breaker is still CLOSED (count 4) after two such consecutive calls and OPEN (count 6)
  after the third. A valid request that names no tool handler fails with
  \<open>Tool not found\<close> in the outer \<open>execute\<close> only and adds exactly 1.
\<close>

theorem failing_tool_call_counts_twice:
  "(tool_failure st params w \<longrightarrow>
      failures (external (after_call st params w)) = failures (external w) + 2)
   \<and> (failureThreshold (options (external w)) = 5
       \<and> state (external w) = CLOSED \<and> failures (external w) = 0
       \<and> tool_failure st p1 w
       \<and> tool_failure st p2 (after_call st p1 w)
       \<and> tool_failure st p3 (after_call st p2 (after_call st p1 w)) \<longrightarrow>
         state (external (after_call st p2 (after_call st p1 w))) = CLOSED
       \<and> failures (external (after_call st p2 (after_call st p1 w))) = 4
       \<and> state (external (after_call st p3 (after_call st p2 (after_call st p1 w)))) = OPEN
       \<and> failures (external (after_call st p3 (after_call st p2 (after_call st p1 w)))) = 6)
   \<and> (n \<noteq> [] \<and> length n \<le> 1000 \<and> lookup_property (toolHandlers st) n = Absent
       \<and> \<not> (state (external w) = OPEN \<and> \<not> shouldAttemptReset w) \<longrightarrow>
         fst (setupHandlers st (CallToolRequest (JObj [(''name'', JStr n), (''arguments'', args)])) w)
           = Inl (Error (''Tool not found: '' @ n))
       \<and> failures (external (after_call st (JObj [(''name'', JStr n), (''arguments'', args)]) w))
           = failures (external w) + 1)"
proof -
  have step: "external (after_call st q v) =
      (external v)\<lparr>failures := failures (external v) + 2,
                   lastFailureTime := lastFailureTime (external (after_call st q v)),
                   state := (if failureThreshold (options (external v)) \<le> failures (external v) + 2
                             then OPEN else if state (external v) = OPEN then HALF_OPEN
                             else state (external v))\<rparr>"
    if tf: "tool_failure st q v" for q v
  proof -
    from tf obtain validated n where
      valid: "validateAndSanitizeParams ''call_tool'' q = Inr validated"
      and name: "get_prop validated ''name'' = JStr n"
      and found: "lookup_property (toolHandlers st) n \<noteq> Absent"
      and admitted: "\<not> (state (external v) = OPEN \<and> \<not> shouldAttemptReset v)"
      and failed: "isl (fst (setupHandlers st (CallToolRequest q) v))"
      by (auto simp: tool_failure_def)
    from found obtain op where op: "tool_operation st n (get_prop validated ''arguments'') = Some op"
      by (cases "lookup_property (toolHandlers st) n") (auto simp: tool_operation_def)
    have leaf: "leaves_breaker op" using op by (rule tool_operation_leaves_breaker)
    have ct: "call_tool st validated = execute op"
      using call_tool_found [OF name op] by (rule ext)
    let ?v1 = "if state (external v) = OPEN then half_open v else v"
    have run: "setupHandlers st (CallToolRequest q) v =
       (case op ?v1 of
          (Inr r, w2) \<Rightarrow> (Inr r, onSuccess (onSuccess w2))
        | (Inl e, w2) \<Rightarrow> (Inl e, onFailure (onFailure w2)))"
      by (simp add: handleRequest_def valid ct nested_execute [OF leaf admitted])
    obtain r w2 where opv: "op ?v1 = (r, w2)" by (cases "op ?v1")
    from failed [unfolded run opv] obtain e where r: "r = Inl e"
      by (cases r) auto
    from leaf opv have ext2: "external w2 = external ?v1"
      by (auto simp: leaves_breaker_def dest: spec [of _ ?v1])
    have after: "after_call st q v = onFailure (onFailure w2)"
      unfolding after_call_def run opv r by simp
    show ?thesis
      unfolding after by (auto simp: external_onFailure ext2 half_open_def)
  qed
  show ?thesis
  proof (intro conjI impI)
    assume "tool_failure st params w"
    then show "failures (external (after_call st params w)) = failures (external w) + 2"
      by (subst step) simp_all
  next
    assume a: "failureThreshold (options (external w)) = 5
       \<and> state (external w) = CLOSED \<and> failures (external w) = 0
       \<and> tool_failure st p1 w
       \<and> tool_failure st p2 (after_call st p1 w)
       \<and> tool_failure st p3 (after_call st p2 (after_call st p1 w))"
    let ?w1 = "after_call st p1 w"
    let ?w2 = "after_call st p2 ?w1"
    let ?w3 = "after_call st p3 ?w2"
    from a have t1: "tool_failure st p1 w" and t2: "tool_failure st p2 ?w1"
      and t3: "tool_failure st p3 ?w2" by simp_all
    have e1: "failures (external ?w1) = 2 \<and> state (external ?w1) = CLOSED
        \<and> options (external ?w1) = options (external w)"
      using a by (subst (1 2 3) step [OF t1]) simp
    have e2: "failures (external ?w2) = 4 \<and> state (external ?w2) = CLOSED
        \<and> options (external ?w2) = options (external w)"
      using a e1 by (subst (1 2 3) step [OF t2]) simp
    have e3: "failures (external ?w3) = 6 \<and> state (external ?w3) = OPEN"
      using a e2 by (subst (1 2) step [OF t3]) simp
    from e2 e3 show "state (external ?w2) = CLOSED" "failures (external ?w2) = 4"
      "state (external ?w3) = OPEN" "failures (external ?w3) = 6" by simp_all
  next
    assume c: "n \<noteq> [] \<and> length n \<le> 1000 \<and> lookup_property (toolHandlers st) n = Absent
       \<and> \<not> (state (external w) = OPEN \<and> \<not> shouldAttemptReset w)"
    then have "setupHandlers st (tool_call n args) w =
       (Inl (Error (''Tool not found: '' @ n)),
        onFailure (if state (external w) = OPEN then half_open w else w))"
      by (intro unknown_tool_counts_once) simp_all
    then have run: "setupHandlers st (CallToolRequest (JObj [(''name'', JStr n), (''arguments'', args)])) w =
       (Inl (Error (''Tool not found: '' @ n)),
        onFailure (if state (external w) = OPEN then half_open w else w))"
      by (simp only: tool_call_def)
    show "fst (setupHandlers st (CallToolRequest (JObj [(''name'', JStr n), (''arguments'', args)])) w)
           = Inl (Error (''Tool not found: '' @ n))"
      unfolding run by simp
    show "failures (external (after_call st (JObj [(''name'', JStr n), (''arguments'', args)]) w))
           = failures (external w) + 1"
      unfolding after_call_def run by (simp add: external_onFailure half_open_def)
  qed
qed

lemma component_keys:
  "map fst components = [''anime'', ''timeline'', ''stagger'', ''path'', ''random'']"
  by (simp add: components_def)

lemma string_of_nat_examples: "string_of_nat 1 = ''1''" "string_of_nat 1000 = ''1000''"
  by code_simp+

text \<open>
  A validation failure ends the request before the breaker and the handler: the error is
  returned and the state is untouched, whatever the handler is.
\<close>

lemma validation_failure_short_circuits:
  "validateAndSanitizeParams method params = Inl err \<Longrightarrow>
     handleRequest method params handler w = (Inl err, w)"
  by (simp add: handleRequest_def)

lemma schema_get_anime_component:
  "lookup_property methodSchemas ''get_anime_component'' = Own [(''componentName'', stringSchema)]"
  by (simp add: lookup_property_def methodSchemas_def)

text \<open>
  The schema registered under \<open>get_anime_component\<close>, applied directly: a missing
  \<open>componentName\<close> and one of 2000 characters are refused, \<open>anime\<close> passes.
\<close>

lemma validate_component_directly:
  "validateAndSanitizeParams ''get_anime_component'' (JObj [])
     = Inl (Error ''Validation failed for get_anime_component: componentName: Required'')"
  "validateAndSanitizeParams ''get_anime_component''
       (JObj [(''componentName'', JStr (replicate 2000 (CHR ''a'')))])
     = Inl (Error (''Validation failed for get_anime_component: componentName: '' @
                   ''String must contain at most 1000 character(s)''))"
  "validateAndSanitizeParams ''get_anime_component'' (JObj [(''componentName'', JStr ''anime'')])
     = Inr (JObj [(''componentName'', JStr ''anime'')])"
  by (simp_all add: validateAndSanitizeParams_def schema_get_anime_component or_empty_object_def
        z_object_parse_def stringSchema_def string_of_nat_examples)

lemma tool_request_runs_handler:
  assumes n: "n \<noteq> []" "length n \<le> 1000"
    and found: "lookup_property (toolHandlers st) n = Own handler"
    and admitted: "\<not> (state (external w) = OPEN \<and> \<not> shouldAttemptReset w)"
  shows "setupHandlers st (tool_call n args) w =
     (case handler (or_empty_object args) (if state (external w) = OPEN then half_open w else w) of
        (Inr r, w2) \<Rightarrow> (Inr r, onSuccess (onSuccess w2))
      | (Inl e, w2) \<Rightarrow> (Inl e, onFailure (onFailure w2)))"
proof -
  let ?validated = "JObj ((''name'', JStr n) # (if args = JUndefined then [] else [(''arguments'', args)]))"
  have name: "get_prop ?validated ''name'' = JStr n" by simp
  have args: "get_prop ?validated ''arguments'' = args" by simp
  have op: "tool_operation st n (get_prop ?validated ''arguments'') = Some (handler (or_empty_object args))"
    unfolding args by (simp add: tool_operation_def found)
  have ct: "call_tool st ?validated = execute (handler (or_empty_object args))"
    using call_tool_found [OF name op] by (rule ext)
  have leaf: "leaves_breaker (handler (or_empty_object args))"
    using found by (rule tool_handlers_leave_breaker)
  show ?thesis
    unfolding tool_call_def setupHandlers.simps handleRequest_def validate_call_tool [OF n]
    by (simp only: sum.case ct nested_execute [OF leaf admitted])
qed

lemma component_handler_miss:
  assumes "map_of (cache w) (''anime-component-'' @ toLowerCase n) = None"
  shows "handleGetAnimeComponent (JObj [(''componentName'', JStr n)]) w =
     (Inr (getComponentInfo n),
      w\<lparr>cache := Cache_set (''anime-component-'' @ toLowerCase n) (getComponentInfo n)
                    (Some (30 * 60 * 1000)) (clock w) (cache w)\<rparr>)"
  using assms by (simp add: handleGetAnimeComponent_def Cache_get_def or_null_def Let_def)

lemma component_handler_not_a_string:
  "handleGetAnimeComponent (JObj []) w = (Inl (TypeError ''componentName.toLowerCase''), w)"
  by (simp add: handleGetAnimeComponent_def)

lemma toLowerCase_lower_a: "toLowerCase (replicate k (CHR ''a'')) = replicate k (CHR ''a'')"
  by (simp add: toLowerCase_def toLowerCase_char_def upper_case_def)

lemma long_name_not_found:
  \<open>getComponentInfo (replicate 2000 (CHR ''a'')) =
     text_response (JStr (''Component "'' @ replicate 2000 (CHR ''a'') @
        ''" not found. Available components: anime, timeline, stagger, path, random''))\<close>
proof -
  have short: "\<forall>k\<in>set (map fst components) \<union> set Object_prototype. length k \<le> 20"
    unfolding component_keys Object_prototype_def by simp
  have "\<not> length (replicate 2000 (CHR ''a'')) \<le> 20" by simp
  with short have "replicate 2000 (CHR ''a'') \<notin> set (map fst components) \<union> set Object_prototype"
    by blast
  then have "replicate 2000 (CHR ''a'') \<notin> set (map fst components)"
    and "replicate 2000 (CHR ''a'') \<notin> set Object_prototype"
    by simp_all
  then have "lookup_property components (replicate 2000 (CHR ''a'')) = Absent"
    by (simp add: lookup_property_def map_of_eq_None_iff [THEN iffD2])
  then show ?thesis
    by (simp add: getComponentInfo_def toLowerCase_lower_a component_keys)
qed

lemma anime_found:
  "\<exists>ps ss. getComponentInfo ''anime'' = text_response (JStr (ps @ ''anime()'' @ ss))"
proof -
  have low: "toLowerCase ''anime'' = ''anime''" by code_simp
  have "\<exists>c. lookup_property components ''anime'' = Own c \<and> c_name c = ''anime()''"
    by (simp add: lookup_property_def components_def)
  then obtain c where c: "lookup_property components ''anime'' = Own c" "c_name c = ''anime()''"
    by blast
  have "\<exists>ss. getComponentInfo ''anime'' = text_response (JStr (''# '' @ ''anime()'' @ ss))"
    by (simp add: getComponentInfo_def text_response_def low c split del: if_split)
  then show ?thesis by blast
qed

lemma fresh_world_admits: "\<not> (state (external fresh_world) = OPEN \<and> \<not> shouldAttemptReset fresh_world)"
  by (simp add: fresh_world_def circuitBreakers_external_def new_CircuitBreaker_def)

lemma fresh_world_cache: "map_of (cache fresh_world) key = None"
  by (simp add: fresh_world_def)

text \<open>
  Claim C1, evaluated on the code. A tool is called through \<open>call_tool\<close>, and
  \<open>handleRequest\<close> validates under that method name only: \<open>name\<close> is checked,
  \<open>arguments\<close> may be anything, and the schema registered under \<open>get_anime_component\<close>
  is never applied. At start-up, calling \<open>get_anime_component\<close> without \<open>componentName\<close>
  passes validation and both breaker calls, reaches the handler, fails there with a
  TypeError (not a validation error) and counts two failures; calling it with a
  2000-character name succeeds with the not-found response; calling it with \<open>anime\<close>
  succeeds with a text that contains \<open>anime()\<close>.
\<close>

theorem component_arguments_bypass_validation:
  \<open>setupHandlers st (tool_call ''get_anime_component'' (JObj [])) fresh_world
     = (Inl (TypeError ''componentName.toLowerCase''),
        fresh_world\<lparr>external := circuitBreakers_external\<lparr>failures := 2, lastFailureTime := Some 0\<rparr>\<rparr>)
   \<and> fst (setupHandlers st
            (tool_call ''get_anime_component''
               (JObj [(''componentName'', JStr (replicate 2000 (CHR ''a'')))])) fresh_world)
     = Inr (text_response (JStr (''Component "'' @ replicate 2000 (CHR ''a'') @
              ''" not found. Available components: anime, timeline, stagger, path, random'')))
   \<and> (\<exists>ps ss. fst (setupHandlers st
            (tool_call ''get_anime_component'' (JObj [(''componentName'', JStr ''anime'')]))
            fresh_world)
         = Inr (text_response (JStr (ps @ ''anime()'' @ ss))))\<close>
proof -
  note run = tool_request_runs_handler [OF _ _ tool_lookup(1) fresh_world_admits, of st, simplified]
  have closed: "state (external fresh_world) \<noteq> OPEN"
    by (simp add: fresh_world_def circuitBreakers_external_def new_CircuitBreaker_def)
  have a: "setupHandlers st (tool_call ''get_anime_component'' (JObj [])) fresh_world
     = (Inl (TypeError ''componentName.toLowerCase''),
        fresh_world\<lparr>external := circuitBreakers_external\<lparr>failures := 2, lastFailureTime := Some 0\<rparr>\<rparr>)"
    by (simp add: run closed or_empty_object_def component_handler_not_a_string)
       (simp add: onFailure_def fresh_world_def circuitBreakers_external_def new_CircuitBreaker_def)
  have b: "fst (setupHandlers st (tool_call ''get_anime_component''
               (JObj [(''componentName'', JStr n)])) fresh_world) = Inr (getComponentInfo n)" for n
    by (simp add: run closed or_empty_object_def component_handler_miss fresh_world_cache)
  note long = b [of "replicate 2000 (CHR ''a'')", unfolded long_name_not_found]
  from anime_found obtain ps ss
    where "getComponentInfo ''anime'' = text_response (JStr (ps @ ''anime()'' @ ss))"
    by blast
  with b [of "''anime''"]
  have c: "fst (setupHandlers st
            (tool_call ''get_anime_component'' (JObj [(''componentName'', JStr ''anime'')]))
            fresh_world)
         = Inr (text_response (JStr (ps @ ''anime()'' @ ss)))"
    by simp
  show ?thesis
    by (intro conjI exI) (rule a, rule long, rule c)
qed

subsection \<open>Unknown identifiers\<close>

lemma doc_keys:
  "map fst (docs body) = [''getting-started'', ''animation-controls'', ''easing'',
                          ''performance'', ''timeline'', ''stagger'']"
  by (simp add: docs_def)

text \<open>
  For a key that is not found at all, the two lookups answer with the list of valid keys.
\<close>

lemma unknown_topic_lists_topics:
  assumes "lookup_property (docs body)
             (map (\<lambda>c. if c = CHR ''-'' \<or> c = CHR ''_'' then CHR ''-'' else c) (toLowerCase topic))
           = Absent"
  shows \<open>getDocumentation body topic =
     text_response (JStr
       (''Documentation for "'' @ topic @ ''" not found. Available topics:\<newline>\<newline>'' @
        ''- getting-started\<newline>- animation-controls\<newline>- easing\<newline>'' @
        ''- performance\<newline>- timeline\<newline>- stagger'' @
        ''\<newline>\<newline>Try searching for topics like: getting-started, '' @
        ''animation-controls, easing, performance, timeline, stagger''))\<close>
  using assms by (simp add: getDocumentation_def doc_keys)

lemma unknown_component_lists_names:
  assumes "lookup_property components
             (filter (\<lambda>c. c \<noteq> CHR ''('' \<and> c \<noteq> CHR '')'') (toLowerCase componentName))
           = Absent"
  shows \<open>getComponentInfo componentName =
     text_response (JStr
       (''Component "'' @ componentName @
        ''" not found. Available components: anime, timeline, stagger, path, random''))\<close>
  using assms by (simp add: getComponentInfo_def component_keys)

lemma unknown_topic_example:
  \<open>getDocumentation body ''unknown-topic'' =
     text_response (JStr
       (''Documentation for "unknown-topic" not found. Available topics:\<newline>\<newline>'' @
        ''- getting-started\<newline>- animation-controls\<newline>- easing\<newline>'' @
        ''- performance\<newline>- timeline\<newline>- stagger'' @
        ''\<newline>\<newline>Try searching for topics like: getting-started, '' @
        ''animation-controls, easing, performance, timeline, stagger''))\<close>
proof -
  have low: "toLowerCase ''unknown-topic'' = ''unknown-topic''" by code_simp
  have "lookup_property (docs body)
          (map (\<lambda>c. if c = CHR ''-'' \<or> c = CHR ''_'' then CHR ''-'' else c)
             (toLowerCase ''unknown-topic'')) = Absent"
    unfolding low by (simp add: lookup_property_def docs_def Object_prototype_def)
  from unknown_topic_lists_topics [OF this] show ?thesis by simp
qed

lemma docs_handler_miss:
  assumes "map_of (cache w) (''anime-docs-'' @ toLowerCase topic) = None"
  shows "handleGetAnimeDocs body (JObj [(''topic'', JStr topic)]) w =
     (Inr (getDocumentation body topic),
      w\<lparr>cache := Cache_set (''anime-docs-'' @ toLowerCase topic) (getDocumentation body topic)
                    (Some (60 * 60 * 1000)) (clock w) (cache w)\<rparr>)"
  using assms by (simp add: handleGetAnimeDocs_def Cache_get_def or_null_def Let_def)

text \<open>
  Claim C8, evaluated on the code. \<open>constructor\<close> is no entry of either table, yet
  \<open>docs['constructor']\<close> and \<open>components['constructor']\<close> are truthy (the function
  \<open>Object\<close>, inherited from \<open>Object.prototype\<close>), so the not-found branch is skipped:
  \<open>get_anime_docs\<close> returns a response whose text is \<open>undefined\<close>, and
  \<open>get_anime_component\<close> a text made of the properties of \<open>Object\<close>. Neither lists the
  valid names.
\<close>

theorem inherited_keys_pass_for_matches:
  \<open>getDocumentation body ''constructor'' = text_response JUndefined
   \<and> fst (setupHandlers st
            (tool_call ''get_anime_docs'' (JObj [(''topic'', JStr ''constructor'')])) fresh_world)
       = Inr (text_response JUndefined)
   \<and> getComponentInfo ''constructor'' =
       text_response (JStr
         (''# Object\<newline>\<newline>**Type:** undefined\<newline>\<newline>'' @
          ''**Description:** undefined\<newline>\<newline>**Syntax:** `undefined`\<newline>\<newline>''))
   \<and> fst (setupHandlers st
            (tool_call ''get_anime_component'' (JObj [(''componentName'', JStr ''constructor'')]))
            fresh_world)
       = Inr (getComponentInfo ''constructor'')\<close>
proof -
  have low: "toLowerCase ''constructor'' = ''constructor''" by code_simp
  have d: "getDocumentation b ''constructor'' = text_response JUndefined" for b
    by (simp add: getDocumentation_def low lookup_property_def docs_def Object_prototype_def)
  have c: \<open>getComponentInfo ''constructor'' =
       text_response (JStr
         (''# Object\<newline>\<newline>**Type:** undefined\<newline>\<newline>'' @
          ''**Description:** undefined\<newline>\<newline>**Syntax:** `undefined`\<newline>\<newline>''))\<close>
  proof -
    have "''constructor'' \<notin> set (map fst components)" unfolding component_keys by simp
    then have "lookup_property components ''constructor'' = Inherited ''constructor''"
      by (simp add: lookup_property_def map_of_eq_None_iff [THEN iffD2] Object_prototype_def)
    then show ?thesis by (simp add: getComponentInfo_def low inherited_name_def)
  qed
  have closed: "state (external fresh_world) \<noteq> OPEN"
    by (simp add: fresh_world_def circuitBreakers_external_def new_CircuitBreaker_def)
  have dh: "fst (setupHandlers st
            (tool_call ''get_anime_docs'' (JObj [(''topic'', JStr ''constructor'')])) fresh_world)
       = Inr (getDocumentation (documentation st) ''constructor'')"
    by (simp add: tool_request_runs_handler [OF _ _ tool_lookup(3) fresh_world_admits]
          closed or_empty_object_def docs_handler_miss fresh_world_cache)
  have ch: "fst (setupHandlers st
            (tool_call ''get_anime_component'' (JObj [(''componentName'', JStr ''constructor'')]))
            fresh_world)
       = Inr (getComponentInfo ''constructor'')"
    by (simp add: tool_request_runs_handler [OF _ _ tool_lookup(1) fresh_world_admits]
          closed or_empty_object_def component_handler_miss fresh_world_cache)
  note dh' = dh [unfolded d]
  show ?thesis
    by (intro conjI) (rule d, rule dh', rule c, rule ch)
qed

subsection \<open>Requests while the breaker is open\<close>

lemma setupHandlers_handleRequest:
  "\<exists>handler. setupHandlers st req = handleRequest (method_of req) (params_of req) handler"
  by (cases req) auto

lemma handleRequest_open:
  assumes "state (external w) = OPEN" "\<not> shouldAttemptReset w"
  shows "handleRequest method params handler w =
     (case validateAndSanitizeParams method params of
        Inl err \<Rightarrow> (Inl err, w)
      | Inr validated \<Rightarrow> (Inl (Error ''Circuit breaker is OPEN''), w))"
  using assms by (simp add: handleRequest_def execute_rejected split: sum.splits)

lemma no_field_schemas:
  "lookup_property methodSchemas ''list_resources'' = Own []"
  "lookup_property methodSchemas ''list_resource_templates'' = Own []"
  "lookup_property methodSchemas ''list_tools'' = Own []"
  "lookup_property methodSchemas ''list_prompts'' = Own []"
  by (simp_all add: lookup_property_def methodSchemas_def)

lemma z_object_parse_no_fields: "z_object_parse [] (or_empty_object JUndefined) = Inr (JObj [])"
  "z_object_parse [] (or_empty_object (JObj kvs)) = Inr (JObj [])"
  by (simp_all add: z_object_parse_def or_empty_object_def)

lemma validate_no_fields:
  assumes "method \<in> {''list_resources'', ''list_resource_templates'', ''list_tools'', ''list_prompts''}"
    and "params = JUndefined \<or> (\<exists>kvs. params = JObj kvs)"
  shows "validateAndSanitizeParams method params = Inr (JObj [])"
proof -
  from assms(1) have "lookup_property methodSchemas method = Own []"
    using no_field_schemas by blast
  moreover from assms(2) have "z_object_parse [] (or_empty_object params) = Inr (JObj [])"
    using z_object_parse_no_fields by blast
  ultimately show ?thesis by (simp add: validateAndSanitizeParams_def)
qed

text \<open>
  Claim C10, as the code has it. All seven request handlers go through \<open>handleRequest\<close>
  and so through the one breaker. While it is OPEN and less than \<open>resetTimeout\<close> has passed
  since the last failure, a request whose parameters pass validation is rejected with
  \<open>Circuit breaker is OPEN\<close>, a request whose parameters fail validation is rejected with
  its validation error, and either way the state is untouched and the outcome does not
  depend on the handler, which is not invoked. The four list methods have no fields to
  validate, so they are always rejected with the breaker's error.
\<close>

theorem open_breaker_rejects_validated_requests:
  assumes "state (external w) = OPEN"
    and "lastFailureTime (external w) = Some t"
    and "clock w - t < resetTimeout (options (external w))"
  shows "setupHandlers st req w =
           (case validateAndSanitizeParams (method_of req) (params_of req) of
              Inl err \<Rightarrow> (Inl err, w)
            | Inr validated \<Rightarrow> (Inl (Error ''Circuit breaker is OPEN''), w))
     \<and> (\<forall>params. params = JUndefined \<or> (\<exists>kvs. params = JObj kvs) \<longrightarrow>
           (\<forall>req' \<in> {ListResourcesRequest params, ListResourceTemplatesRequest params,
                      ListToolsRequest params, ListPromptsRequest params}.
              setupHandlers st req' w = (Inl (Error ''Circuit breaker is OPEN''), w)))"
proof -
  have no_reset: "\<not> shouldAttemptReset w"
    using assms(2,3) by (simp add: shouldAttemptReset_def)
  have main: "setupHandlers st r w =
           (case validateAndSanitizeParams (method_of r) (params_of r) of
              Inl err \<Rightarrow> (Inl err, w)
            | Inr validated \<Rightarrow> (Inl (Error ''Circuit breaker is OPEN''), w))" for r
  proof -
    obtain handler where "setupHandlers st r = handleRequest (method_of r) (params_of r) handler"
      using setupHandlers_handleRequest by blast
    then show ?thesis by (simp only: handleRequest_open [OF assms(1) no_reset])
  qed
  have lists: "setupHandlers st req' w = (Inl (Error ''Circuit breaker is OPEN''), w)"
    if p: "params = JUndefined \<or> (\<exists>kvs. params = JObj kvs)"
      and r: "req' \<in> {ListResourcesRequest params, ListResourceTemplatesRequest params,
                      ListToolsRequest params, ListPromptsRequest params}" for params req'
  proof -
    have "validateAndSanitizeParams (method_of req') (params_of req') = Inr (JObj [])"
      using r p by (intro validate_no_fields) auto
    then show ?thesis by (simp only: main sum.case)
  qed
  show ?thesis
  proof (intro conjI allI impI ballI)
    show "setupHandlers st req w =
           (case validateAndSanitizeParams (method_of req) (params_of req) of
              Inl err \<Rightarrow> (Inl err, w)
            | Inr validated \<Rightarrow> (Inl (Error ''Circuit breaker is OPEN''), w))"
      by (rule main)
  next
    fix params req'
    assume "params = JUndefined \<or> (\<exists>kvs. params = JObj kvs)"
      and "req' \<in> {ListResourcesRequest params, ListResourceTemplatesRequest params,
                      ListToolsRequest params, ListPromptsRequest params}"
    then show "setupHandlers st req' w = (Inl (Error ''Circuit breaker is OPEN''), w)"
      by (rule lists)
  qed
qed

lemma tripped_world_eval:
  "tripped_world =
     \<lparr>external = \<lparr>failures = 5, lastFailureTime = Some 5, state = OPEN,
                   options = \<lparr>failureThreshold = 5, resetTimeout = 60000,
                              monitoringPeriod = 10000\<rparr>\<rparr>,
      cache = [], clock = 5\<rparr>"
  by (simp add: tripped_world_def breaker_eval)

text \<open>
  Claim C10, amended, after five failing calls: a tool call and \<open>list_tools\<close> are rejected
  by the breaker.
\<close>

theorem open_breaker_rejects_validated_requests_witness:
  "state (external tripped_world) = OPEN
   \<and> lastFailureTime (external tripped_world) = Some 5
   \<and> clock tripped_world - 5 < resetTimeout (options (external tripped_world))
   \<and> setupHandlers sample_static
        (tool_call ''get_anime_component'' (JObj [(''componentName'', JStr ''anime'')]))
        tripped_world
       = (Inl (Error ''Circuit breaker is OPEN''), tripped_world)
   \<and> setupHandlers sample_static (ListToolsRequest JUndefined) tripped_world
       = (Inl (Error ''Circuit breaker is OPEN''), tripped_world)"
proof -
  have h1: "state (external tripped_world) = OPEN"
    and h2: "lastFailureTime (external tripped_world) = Some 5"
    and h3: "clock tripped_world - 5 < resetTimeout (options (external tripped_world))"
    by (simp_all add: tripped_world_eval)
  note main = open_breaker_rejects_validated_requests [OF h1 h2 h3, of sample_static]
  have v: "validateAndSanitizeParams ''call_tool''
             (JObj [(''name'', JStr ''get_anime_component''),
                    (''arguments'', JObj [(''componentName'', JStr ''anime'')])])
           = Inr (JObj [(''name'', JStr ''get_anime_component''),
                        (''arguments'', JObj [(''componentName'', JStr ''anime'')])])"
    by (simp add: validate_call_tool)
  have a: "setupHandlers sample_static
        (tool_call ''get_anime_component'' (JObj [(''componentName'', JStr ''anime'')]))
        tripped_world
       = (Inl (Error ''Circuit breaker is OPEN''), tripped_world)"
    using main [of "tool_call ''get_anime_component'' (JObj [(''componentName'', JStr ''anime'')])",
                THEN conjunct1]
    by (simp add: tool_call_def v)
  have b: "setupHandlers sample_static (ListToolsRequest JUndefined) tripped_world
       = (Inl (Error ''Circuit breaker is OPEN''), tripped_world)"
    using main [of "ListToolsRequest JUndefined", THEN conjunct2, rule_format, of JUndefined
                  "ListToolsRequest JUndefined"]
    by simp
  show ?thesis
    by (intro conjI) (rule h1, rule h2, rule h3, rule a, rule b)
qed

text \<open>
  Claim C10 as stated fails: with the breaker OPEN and the cooldown running,
  \<open>read_resource\<close> with an empty \<open>uri\<close> is rejected with a validation error, not with
  \<open>Circuit breaker is OPEN\<close>.
\<close>

theorem open_breaker_validation_error_first:
  "state (external tripped_world) = OPEN
   \<and> lastFailureTime (external tripped_world) = Some 5
   \<and> clock tripped_world - 5 < resetTimeout (options (external tripped_world))
   \<and> setupHandlers sample_static (ReadResourceRequest (JObj [(''uri'', JStr [])])) tripped_world
       = (Inl (Error (''Validation failed for read_resource: uri: '' @
                      ''String must contain at least 1 character(s)'')), tripped_world)
   \<and> fst (setupHandlers sample_static (ReadResourceRequest (JObj [(''uri'', JStr [])]))
            tripped_world)
       \<noteq> Inl (Error ''Circuit breaker is OPEN'')"
proof -
  have v: "validateAndSanitizeParams ''read_resource'' (JObj [(''uri'', JStr [])])
       = Inl (Error (''Validation failed for read_resource: uri: '' @
                      ''String must contain at least 1 character(s)''))"
    by (simp add: validateAndSanitizeParams_def lookup_property_def methodSchemas_def
          or_empty_object_def z_object_parse_def stringSchema_def string_of_nat_examples)
  have r: "setupHandlers sample_static (ReadResourceRequest (JObj [(''uri'', JStr [])])) tripped_world
       = (Inl (Error (''Validation failed for read_resource: uri: '' @
                      ''String must contain at least 1 character(s)'')), tripped_world)"
    unfolding setupHandlers.simps by (rule validation_failure_short_circuits [OF v])
  have h1: "state (external tripped_world) = OPEN"
    and h2: "lastFailureTime (external tripped_world) = Some 5"
    and h3: "clock tripped_world - 5 < resetTimeout (options (external tripped_world))"
    by (simp_all add: tripped_world_eval)
  have d: "fst (setupHandlers sample_static (ReadResourceRequest (JObj [(''uri'', JStr [])]))
            tripped_world)
       \<noteq> Inl (Error ''Circuit breaker is OPEN'')"
    unfolding r by simp
  show ?thesis
    by (intro conjI) (rule h1, rule h2, rule h3, rule r, rule d)
qed

subsection \<open>Worked examples\<close>

lemma missing_name_fails:
  assumes "\<not> (state (external w) = OPEN \<and> \<not> shouldAttemptReset w)"
  shows "setupHandlers st (CallToolRequest missing_name_call) w =
     (Inl (TypeError ''componentName.toLowerCase''),
      onFailure (onFailure (if state (external w) = OPEN then half_open w else w)))"
  using tool_request_runs_handler [OF _ _ tool_lookup(1) assms, of st "JObj []"]
  by (simp add: tool_call_def missing_name_call_def or_empty_object_def
        component_handler_not_a_string)

lemma tool_failure_missing_name:
  assumes "\<not> (state (external w) = OPEN \<and> \<not> shouldAttemptReset w)"
  shows "tool_failure st missing_name_call w"
proof -
  have "validateAndSanitizeParams ''call_tool'' missing_name_call = Inr missing_name_call"
    by (simp add: missing_name_call_def validate_call_tool)
  moreover have "get_prop missing_name_call ''name'' = JStr ''get_anime_component''"
    by (simp add: missing_name_call_def)
  moreover have "lookup_property (toolHandlers st) ''get_anime_component'' \<noteq> Absent"
    by (simp add: tool_lookup)
  moreover have "isl (fst (setupHandlers st (CallToolRequest missing_name_call) w))"
    unfolding missing_name_fails [OF assms] by simp
  ultimately show ?thesis
    unfolding tool_failure_def using assms by blast
qed

lemma after_missing_name:
  assumes "state (external w) = CLOSED"
  shows "after_call st missing_name_call w = onFailure (onFailure w)"
  unfolding after_call_def using assms by (subst missing_name_fails) simp_all

text \<open>
  Claim C9, amended, at three calls of \<open>get_anime_component\<close> without \<open>componentName\<close>,
  whose handler raises a TypeError each time, and at a call of the tool \<open>no_such_tool\<close>.
\<close>

theorem failing_tool_call_counts_twice_witness:
  "failureThreshold (options (external fresh_world)) = 5
   \<and> state (external fresh_world) = CLOSED
   \<and> failures (external fresh_world) = 0
   \<and> tool_failure sample_static missing_name_call fresh_world
   \<and> tool_failure sample_static missing_name_call
        (after_call sample_static missing_name_call fresh_world)
   \<and> tool_failure sample_static missing_name_call
        (after_call sample_static missing_name_call
          (after_call sample_static missing_name_call fresh_world))
   \<and> failures (external (after_call sample_static missing_name_call fresh_world)) = 2
   \<and> state (external (after_call sample_static missing_name_call
                         (after_call sample_static missing_name_call fresh_world))) = CLOSED
   \<and> state (external (after_call sample_static missing_name_call
                         (after_call sample_static missing_name_call
                           (after_call sample_static missing_name_call fresh_world)))) = OPEN
   \<and> failures (external (after_call sample_static missing_name_call
                         (after_call sample_static missing_name_call
                           (after_call sample_static missing_name_call fresh_world)))) = 6
   \<and> lookup_property (toolHandlers sample_static) ''no_such_tool'' = Absent
   \<and> fst (setupHandlers sample_static (CallToolRequest unknown_tool_call) fresh_world)
       = Inl (Error ''Tool not found: no_such_tool'')
   \<and> failures (external (after_call sample_static unknown_tool_call fresh_world)) = 1"
proof -
  let ?w1 = "after_call sample_static missing_name_call fresh_world"
  let ?w2 = "after_call sample_static missing_name_call ?w1"
  let ?w3 = "after_call sample_static missing_name_call ?w2"
  have h1: "failureThreshold (options (external fresh_world)) = 5"
    and h2: "state (external fresh_world) = CLOSED"
    and h3: "failures (external fresh_world) = 0"
    by (simp_all add: breaker_eval)
  have w1: "?w1 = onFailure (onFailure fresh_world)"
    using h2 by (rule after_missing_name)
  have s1: "state (external ?w1) = CLOSED"
    unfolding w1 by (simp add: breaker_eval)
  have w2: "?w2 = onFailure (onFailure ?w1)"
    using s1 by (rule after_missing_name)
  have s2: "state (external ?w2) = CLOSED"
    by (subst w2, subst w1) (simp add: breaker_eval)
  have t1: "tool_failure sample_static missing_name_call fresh_world"
    using h2 by (intro tool_failure_missing_name) simp
  have t2: "tool_failure sample_static missing_name_call ?w1"
    using s1 by (intro tool_failure_missing_name) simp
  have t3: "tool_failure sample_static missing_name_call ?w2"
    using s2 by (intro tool_failure_missing_name) simp
  note main = failing_tool_call_counts_twice
      [of sample_static missing_name_call fresh_world missing_name_call missing_name_call
          missing_name_call "''no_such_tool''" "JObj []"]
  from main have "tool_failure sample_static missing_name_call fresh_world \<longrightarrow>
      failures (external ?w1) = failures (external fresh_world) + 2"
    by (rule conjunct1)
  with t1 h3 have f1: "failures (external ?w1) = 2" by simp
  from main have "failureThreshold (options (external fresh_world)) = 5
       \<and> state (external fresh_world) = CLOSED \<and> failures (external fresh_world) = 0
       \<and> tool_failure sample_static missing_name_call fresh_world
       \<and> tool_failure sample_static missing_name_call ?w1
       \<and> tool_failure sample_static missing_name_call ?w2 \<longrightarrow>
         state (external ?w2) = CLOSED \<and> failures (external ?w2) = 4
       \<and> state (external ?w3) = OPEN \<and> failures (external ?w3) = 6"
    by (elim conjE)
  with h1 h2 h3 t1 t2 t3
  have r: "state (external ?w2) = CLOSED \<and> failures (external ?w2) = 4
       \<and> state (external ?w3) = OPEN \<and> failures (external ?w3) = 6"
    by blast
  have absent: "lookup_property (toolHandlers sample_static) ''no_such_tool'' = Absent"
    by (rule tool_lookup)
  from main have "''no_such_tool'' \<noteq> [] \<and> length ''no_such_tool'' \<le> 1000
       \<and> lookup_property (toolHandlers sample_static) ''no_such_tool'' = Absent
       \<and> \<not> (state (external fresh_world) = OPEN \<and> \<not> shouldAttemptReset fresh_world) \<longrightarrow>
         fst (setupHandlers sample_static
               (CallToolRequest (JObj [(''name'', JStr ''no_such_tool''), (''arguments'', JObj [])]))
               fresh_world)
           = Inl (Error (''Tool not found: '' @ ''no_such_tool''))
       \<and> failures (external (after_call sample_static
               (JObj [(''name'', JStr ''no_such_tool''), (''arguments'', JObj [])]) fresh_world))
           = failures (external fresh_world) + 1"
    by (elim conjE)
  with absent fresh_world_admits h3
  have u: "fst (setupHandlers sample_static (CallToolRequest unknown_tool_call) fresh_world)
       = Inl (Error ''Tool not found: no_such_tool'')"
    "failures (external (after_call sample_static unknown_tool_call fresh_world)) = 1"
    by (simp_all add: unknown_tool_call_def)
  show ?thesis
    using h1 h2 h3 t1 t2 t3 f1 r absent u by (intro conjI) simp_all
qed

text \<open>
  Claim C9 as stated fails. Three consecutive calls of the tool \<open>no_such_tool\<close>, from
  start-up: each passes validation and fails with \<open>Tool not found\<close>, thrown by the handler
  of \<open>call_tool\<close> before its own \<open>execute\<close>, so each counts once. The count is 1 after the
  first call, not 2, and after the third the count is 3 and the breaker is still CLOSED.
\<close>

theorem unknown_tool_call_counts_once_only:
  "failureThreshold (options (external fresh_world)) = 5
   \<and> state (external fresh_world) = CLOSED
   \<and> failures (external fresh_world) = 0
   \<and> validateAndSanitizeParams ''call_tool'' unknown_tool_call = Inr unknown_tool_call
   \<and> fst (setupHandlers sample_static (CallToolRequest unknown_tool_call) fresh_world)
       = Inl (Error ''Tool not found: no_such_tool'')
   \<and> failures (external (after_call sample_static unknown_tool_call fresh_world)) = 1
   \<and> fst (setupHandlers sample_static (CallToolRequest unknown_tool_call)
            (after_call sample_static unknown_tool_call fresh_world))
       = Inl (Error ''Tool not found: no_such_tool'')
   \<and> fst (setupHandlers sample_static (CallToolRequest unknown_tool_call)
            (after_call sample_static unknown_tool_call
              (after_call sample_static unknown_tool_call fresh_world)))
       = Inl (Error ''Tool not found: no_such_tool'')
   \<and> failures (external (after_call sample_static unknown_tool_call
                         (after_call sample_static unknown_tool_call
                           (after_call sample_static unknown_tool_call fresh_world)))) = 3
   \<and> state (external (after_call sample_static unknown_tool_call
                         (after_call sample_static unknown_tool_call
                           (after_call sample_static unknown_tool_call fresh_world)))) = CLOSED"
proof -
  let ?w1 = "after_call sample_static unknown_tool_call fresh_world"
  let ?w2 = "after_call sample_static unknown_tool_call ?w1"
  let ?w3 = "after_call sample_static unknown_tool_call ?w2"
  have h: "failureThreshold (options (external fresh_world)) = 5"
    "state (external fresh_world) = CLOSED" "failures (external fresh_world) = 0"
    by (simp_all add: breaker_eval)
  have v: "validateAndSanitizeParams ''call_tool'' unknown_tool_call = Inr unknown_tool_call"
    by (simp add: unknown_tool_call_def validate_call_tool)
  have run: "setupHandlers sample_static (CallToolRequest unknown_tool_call) w =
       (Inl (Error ''Tool not found: no_such_tool''), onFailure w)"
    if "state (external w) = CLOSED" for w
    using unknown_tool_counts_once [of "''no_such_tool''" sample_static w "JObj []"] that
    by (simp add: tool_lookup tool_call_def unknown_tool_call_def)
  have step: "fst (setupHandlers sample_static (CallToolRequest unknown_tool_call) w)
         = Inl (Error ''Tool not found: no_such_tool'')
       \<and> state (external (after_call sample_static unknown_tool_call w)) = CLOSED
       \<and> failures (external (after_call sample_static unknown_tool_call w))
           = failures (external w) + 1
       \<and> failureThreshold (options (external (after_call sample_static unknown_tool_call w))) = 5"
    if "state (external w) = CLOSED" "failureThreshold (options (external w)) = 5"
      "failures (external w) + 1 < 5" for w
    unfolding after_call_def run [OF that(1)] using that by (simp add: external_onFailure)
  have s1: "fst (setupHandlers sample_static (CallToolRequest unknown_tool_call) fresh_world)
         = Inl (Error ''Tool not found: no_such_tool'')
       \<and> state (external ?w1) = CLOSED \<and> failures (external ?w1) = 1
       \<and> failureThreshold (options (external ?w1)) = 5"
    using step [of fresh_world] h by simp
  have s2: "fst (setupHandlers sample_static (CallToolRequest unknown_tool_call) ?w1)
         = Inl (Error ''Tool not found: no_such_tool'')
       \<and> state (external ?w2) = CLOSED \<and> failures (external ?w2) = 2
       \<and> failureThreshold (options (external ?w2)) = 5"
    using step [of ?w1] s1 by simp
  have s3: "fst (setupHandlers sample_static (CallToolRequest unknown_tool_call) ?w2)
         = Inl (Error ''Tool not found: no_such_tool'')
       \<and> state (external ?w3) = CLOSED \<and> failures (external ?w3) = 3
       \<and> failureThreshold (options (external ?w3)) = 5"
    using step [of ?w2] s2 by simp
  show ?thesis
    using h v s1 s2 s3 by (intro conjI) simp_all
qed

lemma stagger_matches:
  "map ex_id (matchedExamples ''stagger'') = [''stagger-grid'', ''text-animation'']"
  by code_simp





end
